theory Spec2Isabelle
  imports Main "HOL-Library.AList"
begin

section \<open>JavaScript values\<close>

text \<open>
  The values a record property or a result column can hold. Numbers are modelled as
  integers plus \<open>NaN\<close>; an object (a \<open>Date\<close>, an array, a nested object) is a
  reference compared by identity, as \<open>===\<close> compares it.
\<close>

datatype jsval =
    JUndefined
  | JNull
  | JBool bool
  | JNum int
  | JNaN
  | JStr string
  | JRef nat

text \<open>\<open>!v\<close> is true exactly for the falsy values.\<close>

fun falsy :: "jsval \<Rightarrow> bool" where
  "falsy JUndefined = True"
| "falsy JNull = True"
| "falsy (JBool b) = (\<not> b)"
| "falsy (JNum n) = (n = 0)"
| "falsy JNaN = True"
| "falsy (JStr s) = (s = [])"
| "falsy (JRef r) = False"

text \<open>\<open>v == null\<close>: the values \<open>??\<close> replaces and \<open>!= null\<close> rejects.\<close>

fun nullish :: "jsval \<Rightarrow> bool" where
  "nullish JUndefined = True"
| "nullish JNull = True"
| "nullish v = False"

text \<open>\<open>a !== b\<close>: strict inequality; \<open>NaN\<close> differs from itself.\<close>

fun strict_neq :: "jsval \<Rightarrow> jsval \<Rightarrow> bool" where
  "strict_neq JNaN b = True"
| "strict_neq a JNaN = True"
| "strict_neq a b = (a \<noteq> b)"

text \<open>
  A plain object is an association list in property order; assigning a property keeps
  the position of a key that exists and appends a new one (\<open>AList.update\<close>). Reading a
  property that is absent gives \<open>undefined\<close>.
\<close>

type_synonym jsobject = "(string \<times> jsval) list"

definition getProp :: "jsobject \<Rightarrow> string \<Rightarrow> jsval" where
  "getProp obj k = (case map_of obj k of None \<Rightarrow> JUndefined | Some v \<Rightarrow> v)"

definition hasOwnProperty :: "jsobject \<Rightarrow> string \<Rightarrow> bool" where
  "hasOwnProperty obj k = (map_of obj k \<noteq> None)"

text \<open>\<open>Object.assign(target, source)\<close>: every own property of the source, in order.\<close>

definition assign :: "jsobject \<Rightarrow> jsobject \<Rightarrow> jsobject" where
  "assign target source = fold (\<lambda>(k, v). AList.update k v) source target"


section \<open>Errors\<close>

text \<open>
  Every \<open>throw\<close> of the workers is a value. The constructors carry the names the
  specification gives to the failures. \<open>TypeError\<close> is the runtime's own error on a
  property access or assignment on \<open>undefined\<close>, and the error of the SQL builder on a
  value that is neither a primitive nor a token; \<open>InvalidInput\<close> is the SQL builder's
  error on an \<open>undefined\<close> value and on a list without members; \<open>DriverError\<close> is a
  failure of the database driver.
\<close>

datatype error =
    EmptyBatch
  | IncompatibleOptions
  | MissingTable
  | MixedTypes
  | NoColumnsToUpdate
  | InvalidIdentifier string
  | MissingPrimaryKey
  | MissingPredicate
  | MissingKeyValue string
  | TypeError
  | InvalidInput
  | DriverError string

text \<open>\<open>xs.map(f)\<close> for a callback that may throw: the first throw ends the map.\<close>

fun mapE :: "('a \<Rightarrow> error + 'b) \<Rightarrow> 'a list \<Rightarrow> error + 'b list" where
  "mapE f [] = Inr []"
| "mapE f (x # xs) =
     (case f x of
        Inl e \<Rightarrow> Inl e
      | Inr y \<Rightarrow> (case mapE f xs of Inl e \<Rightarrow> Inl e | Inr ys \<Rightarrow> Inr (y # ys)))"


section \<open>The SQL builder\<close>

text \<open>
  The SQL builder of the driver library is outside the repository: a token records how
  it was built. A template literal is the list of its text pieces and interpolated
  values, with each run of white space of the text written as one blank. \<open>Param v\<close> is
  a value of the program interpolated as it is.
\<close>

datatype sqltok =
    Text string
  | Identifier "string list"
  | Join "sqltok list" sqltok
  | Fragment "sqltok list"
  | Unsafe "sqltok list"
  | Jsonb "jsobject list"
  | Raw string
  | Param jsval

text \<open>
  The template tags bind their values when the template is evaluated, from left to
  right, after every interpolated expression has been evaluated: \<open>undefined\<close> is
  refused, an object that is no token is refused, a list (\<open>sql.join\<close>) is rendered and
  refused when it has no member; \<open>sql.join\<close> itself refuses nothing. The members of the
  lists this program builds are fragments, identifiers, raw pieces and strings, which
  always render.
\<close>

fun bindValue :: "sqltok \<Rightarrow> error + sqltok" where
  "bindValue (Param JUndefined) = Inl InvalidInput"
| "bindValue (Param (JRef r)) = Inl TypeError"
| "bindValue (Join [] glue) = Inl InvalidInput"
| "bindValue tok = Inr tok"

text \<open>\<^verbatim>\<open>sql.fragment`...`\<close> and \<^verbatim>\<open>sql.unsafe`...`\<close> over the pieces of the template.\<close>

definition sqlFragment :: "sqltok list \<Rightarrow> error + sqltok" where
  "sqlFragment parts = (case mapE bindValue parts of Inl e \<Rightarrow> Inl e | Inr ps \<Rightarrow> Inr (Fragment ps))"

definition sqlUnsafe :: "sqltok list \<Rightarrow> error + sqltok" where
  "sqlUnsafe parts = (case mapE bindValue parts of Inl e \<Rightarrow> Inl e | Inr ps \<Rightarrow> Inr (Unsafe ps))"

text \<open>
  For the statements about what a statement holds: a token and every token inside it.
\<close>

fun subtokens :: "sqltok \<Rightarrow> sqltok list" where
  "subtokens (Join ts glue) = Join ts glue # concat (map subtokens ts) @ subtokens glue"
| "subtokens (Fragment ts) = Fragment ts # concat (map subtokens ts)"
| "subtokens (Unsafe ts) = Unsafe ts # concat (map subtokens ts)"
| "subtokens (Text s) = [Text s]"
| "subtokens (Identifier ns) = [Identifier ns]"
| "subtokens (Jsonb objs) = [Jsonb objs]"
| "subtokens (Raw s) = [Raw s]"
| "subtokens (Param v) = [Param v]"

definition holds :: "sqltok \<Rightarrow> sqltok \<Rightarrow> bool" where
  "holds tok part \<longleftrightarrow> part \<in> set (subtokens tok)"


section \<open>Column and record configuration (db-record.ts)\<close>

text \<open>\<open>in\<close> and \<open>out\<close> of a column: a boolean or a transformer function.\<close>

datatype transform = Flag bool | Fn "jsval \<Rightarrow> jsval"

text \<open>\<open>t === false\<close>.\<close>

fun isFalse :: "transform \<Rightarrow> bool" where
  "isFalse (Flag b) = (\<not> b)"
| "isFalse (Fn f) = False"

text \<open>\<open>primaryKey?: true | number\<close>.\<close>

datatype pkey = PkTrue | PkNum int

record ColumnConfig =
  exclude :: bool
  in_c :: transform
  out_c :: transform
  excludeFromUpdate :: bool
  name_c :: "string option"
  type_c :: string
  autoLoad :: bool
  primaryKey :: "pkey option"
  transformTimestamps :: bool

record ColumnDetail =
  name :: string
  dbName :: string
  config :: ColumnConfig

datatype columnsOpt = AllColumns | Names "string list"

record GetQueryOptions =
  override :: "sqltok option"
  append_q :: "sqltok option"
  columns_q :: "columnsOpt option"
  tableName_q :: "string option"

record RecordConfig =
  table :: "string option"
  convertCases :: "bool option"
  query :: "GetQueryOptions option"

record RecordConfigWithColumns = RecordConfig +
  columns :: "(string \<times> ColumnConfig) list"

text \<open>
  A record class: its identity (two classes are the same constructor when they are the
  same object), its name and the \<open>_config\<close> the decorator stored on it.
\<close>

record DbRecordCtor =
  ctorId :: nat
  ctorName :: string
  config_s :: RecordConfigWithColumns

text \<open>
  \<open>config.name!\<close>: registration fills the name of every column in; the assertion
  reads it.
\<close>

definition nameOf :: "ColumnConfig \<Rightarrow> string" where
  "nameOf cfg = (case name_c cfg of Some n \<Rightarrow> n | None \<Rightarrow> [])"

definition getConfig :: "DbRecordCtor \<Rightarrow> RecordConfigWithColumns" where
  "getConfig ctor = config_s ctor"

definition getInsertColumns :: "DbRecordCtor \<Rightarrow> ColumnDetail list" where
  "getInsertColumns ctor =
     map (\<lambda>(n, cfg). \<lparr>name = n, dbName = nameOf cfg, config = cfg\<rparr>)
       (filter (\<lambda>(n, cfg). \<not> isFalse (out_c cfg) \<and> \<not> exclude cfg) (columns (getConfig ctor)))"

definition getSelectColumns :: "DbRecordCtor \<Rightarrow> ColumnDetail list" where
  "getSelectColumns ctor =
     map (\<lambda>(n, cfg). \<lparr>name = n, dbName = nameOf cfg, config = cfg\<rparr>)
       (filter (\<lambda>(n, cfg). \<not> isFalse (in_c cfg) \<and> \<not> exclude cfg) (columns (getConfig ctor)))"

text \<open>\<open>+primaryKey\<close>: \<open>true\<close> is 1, a number is itself, \<open>undefined\<close> is \<open>NaN\<close>.\<close>

fun pkOrdinal :: "pkey \<Rightarrow> int" where
  "pkOrdinal PkTrue = 1"
| "pkOrdinal (PkNum n) = n"

definition isPkColumn :: "ColumnConfig \<Rightarrow> bool" where
  "isPkColumn cfg = (case primaryKey cfg of None \<Rightarrow> False | Some p \<Rightarrow> pkOrdinal p \<ge> 0)"

definition pkSortKey :: "ColumnConfig \<Rightarrow> int" where
  "pkSortKey cfg = (case primaryKey cfg of None \<Rightarrow> 0 | Some p \<Rightarrow> pkOrdinal p)"

text \<open>The sort is stable, as \<open>Array.prototype.sort\<close> is.\<close>

definition getPrimaryKeys :: "DbRecordCtor \<Rightarrow> string list" where
  "getPrimaryKeys ctor =
     map nameOf (sort_key pkSortKey (filter isPkColumn (map snd (columns (getConfig ctor)))))"


section \<open>Record instances (db-record.ts)\<close>

text \<open>
  An instance: its constructor, its own enumerable properties and the hidden
  \<open>_original\<close> snapshot. The metadata map plays no part in any query and is left out.
  Column properties are assumed not to carry the name of a member of the base class.
\<close>

record DbRecord =
  constructor_r :: DbRecordCtor
  props :: jsobject
  original_r :: "jsobject option"

definition saveState :: "DbRecord \<Rightarrow> DbRecord" where
  "saveState r = r\<lparr>original_r := Some (props r)\<rparr>"

definition getChangedColumns :: "DbRecord \<Rightarrow> ColumnDetail list" where
  "getChangedColumns r =
     (case original_r r of
        None \<Rightarrow> getInsertColumns (constructor_r r)
      | Some orig \<Rightarrow>
          filter (\<lambda>col. strict_neq (getProp orig (name col)) (getProp (props r) (name col)))
            (getInsertColumns (constructor_r r)))"

text \<open>
  \<open>getWhereClause\<close>: \<open>undefined\<close> (here \<open>None\<close>) for a type without primary keys;
  otherwise one equality per key, in key order, a key without a truthy value raising.
  \<open>find(...)!.name\<close> on a key that is no insert column is a \<open>TypeError\<close>; the value of
  the key is bound by the template of the equality.
\<close>

definition whereCondition :: "DbRecord \<Rightarrow> ColumnDetail list \<Rightarrow> string \<Rightarrow> error + sqltok" where
  "whereCondition r cols k =
     (case find (\<lambda>c. dbName c = k) cols of
        None \<Rightarrow> Inl TypeError
      | Some c \<Rightarrow>
          (let v = getProp (props r) (name c)
           in if falsy v then Inl (MissingKeyValue k)
              else sqlFragment [Identifier [k], Text '' = '', Param v]))"

definition getWhereClause :: "DbRecord \<Rightarrow> bool \<Rightarrow> error + sqltok option" where
  "getWhereClause r noLeadingWhere =
     (let ctor = constructor_r r;
          primaryKeys = getPrimaryKeys ctor
      in if primaryKeys = [] then Inr None
         else (case mapE (whereCondition r (getInsertColumns ctor)) primaryKeys of
                 Inl e \<Rightarrow> Inl e
               | Inr conditions \<Rightarrow>
                   if \<not> noLeadingWhere
                   then (case sqlFragment [Text ''WHERE '', Join conditions (Fragment [Text '' AND ''])] of
                           Inl e \<Rightarrow> Inl e
                         | Inr w \<Rightarrow> Inr (Some w))
                   else Inr (Some (Join conditions (Fragment [Text '' AND ''])))))"

text \<open>
  An instance is an object the caller and the worker share. A batch is a list of
  references, the store gives the object behind each reference, and one reference may
  stand in a batch more than once. The workers read the objects and write to them in
  place.
\<close>

type_synonym store = "nat \<Rightarrow> DbRecord"

text \<open>\<open>record.forEach(rec => rec.saveState())\<close>.\<close>

definition saveAll :: "nat list \<Rightarrow> store \<Rightarrow> store" where
  "saveAll record st = fold (\<lambda>a s. s(a := saveState (s a))) record st"


section \<open>Shared helpers (utils, pool-proto.ts)\<close>

datatype 'a OneOrMore = One 'a | More "'a list"

text \<open>\<open>[ x ].flat()\<close>: a single value becomes a one-element array.\<close>

fun flat :: "'a OneOrMore \<Rightarrow> 'a list" where
  "flat (One x) = [x]"
| "flat (More xs) = xs"

text \<open>\<open>xs.slice(i, j)\<close> for indices that are not negative.\<close>

definition slice :: "'a list \<Rightarrow> nat \<Rightarrow> nat \<Rightarrow> 'a list" where
  "slice xs i j = drop i (take j xs)"

text \<open>\<open>s.split('.')\<close>.\<close>

fun splitDot :: "string \<Rightarrow> string list" where
  "splitDot [] = [[]]"
| "splitDot (c # cs) =
     (if c = CHR ''.'' then [] # splitDot cs
      else (case splitDot cs of [] \<Rightarrow> [[c]] | w # ws \<Rightarrow> (c # w) # ws))"

text \<open>\<open>isValidPostgresIdentifier\<close>: the whole string matches
  \<^verbatim>\<open>/^[A-Za-z_][A-Za-z_0-9$]*$/\<close>.\<close>

definition isIdentStart :: "char \<Rightarrow> bool" where
  "isIdentStart c =
     (let n = (of_char c :: nat) in (65 \<le> n \<and> n \<le> 90) \<or> (97 \<le> n \<and> n \<le> 122) \<or> n = 95)"

definition isIdentRest :: "char \<Rightarrow> bool" where
  "isIdentRest c =
     (let n = (of_char c :: nat) in isIdentStart c \<or> (48 \<le> n \<and> n \<le> 57) \<or> n = 36)"

fun isValidPostgresIdentifier :: "string \<Rightarrow> bool" where
  "isValidPostgresIdentifier [] = False"
| "isValidPostgresIdentifier (c # cs) = (isIdentStart c \<and> list_all isIdentRest cs)"

text \<open>\<open>a || b\<close> on optional strings: the empty string is falsy too.\<close>

definition orElse :: "string option \<Rightarrow> string option \<Rightarrow> string option" where
  "orElse a b = (case a of None \<Rightarrow> b | Some s \<Rightarrow> if s = [] then b else Some s)"

text \<open>
  The result of one statement: its rows, each an object keyed by column name. The
  database is a state the driver threads through: a statement either fails or gives
  its result and the next state.
\<close>

record QueryResult =
  rows :: "jsobject list"

type_synonym 'db driver = "'db \<Rightarrow> sqltok \<Rightarrow> error + (QueryResult \<times> 'db)"

fun runQueries :: "'db driver \<Rightarrow> 'db \<Rightarrow> sqltok list \<Rightarrow> error + (QueryResult list \<times> 'db)" where
  "runQueries t db [] = Inr ([], db)"
| "runQueries t db (q # qs) =
     (case t db q of
        Inl e \<Rightarrow> Inl e
      | Inr (r, db') \<Rightarrow>
          (case runQueries t db' qs of
             Inl e \<Rightarrow> Inl e
           | Inr (rs, db'') \<Rightarrow> Inr (r # rs, db'')))"

text \<open>
  \<open>performQueries\<close>: the starting query when there is one, every query in order, the
  final query when there is one; the first failure ends the transaction.
\<close>

definition performQueries ::
  "'db driver \<Rightarrow> 'db \<Rightarrow> sqltok list \<Rightarrow> sqltok option \<Rightarrow> sqltok option
     \<Rightarrow> error + (QueryResult list \<times> 'db)" where
  "performQueries t db queries startingQuery finalQuery =
     runQueries t db
       ((case startingQuery of None \<Rightarrow> [] | Some q \<Rightarrow> [q]) @ queries @
        (case finalQuery of None \<Rightarrow> [] | Some q \<Rightarrow> [q]))"

text \<open>
  The chunk loop of both workers:
  \<^verbatim>\<open>for (let i = 0; i < xs.length; i += chunkMax) push(build(xs.slice(i, i + chunkMax)))\<close>.
  With a chunk maximum of zero the loop never moves on: it ends only when building a
  statement throws, and has no value otherwise.
\<close>

partial_function (option) chunkLoop ::
  "('a list \<Rightarrow> error + 'q) \<Rightarrow> nat \<Rightarrow> 'a list \<Rightarrow> nat \<Rightarrow> 'q list \<Rightarrow> (error + 'q list) option" where
  "chunkLoop build chunkMax xs i acc =
     (if i < length xs then
        (case build (slice xs i (i + chunkMax)) of
           Inl e \<Rightarrow> Some (Inl e)
         | Inr q \<Rightarrow> chunkLoop build chunkMax xs (i + chunkMax) (acc @ [q]))
      else Some (Inr acc))"

declare chunkLoop.simps [code]

text \<open>
  The slices the loop visits from index \<open>i\<close> on, for the statements about it: the
  slice at \<open>i\<close>, then those from \<open>i + chunkMax\<close> on.
\<close>

function chunksFrom :: "nat \<Rightarrow> 'a list \<Rightarrow> nat \<Rightarrow> 'a list list" where
  "chunksFrom c xs i =
     (if c = 0 \<or> length xs \<le> i then [] else slice xs i (i + c) # chunksFrom c xs (i + c))"
  by pat_completeness auto
termination
  by (relation "measure (\<lambda>(c, xs, i). length xs - i)") auto

declare chunksFrom.simps [simp del]

text \<open>
  What the specification asks of the chunks of a batch \<open>xs\<close> under the limit \<open>c\<close>:
  there are \<open>ceil(length xs / c)\<close> of them, the \<open>k\<close>-th is the contiguous slice from
  \<open>k * c\<close>, none is longer than \<open>c\<close>, and together they are the batch in its order.
\<close>

definition isChunking :: "nat \<Rightarrow> 'a list \<Rightarrow> 'a list list \<Rightarrow> bool" where
  "isChunking c xs chunks \<longleftrightarrow>
     length chunks = (length xs + c - 1) div c \<and>
     (\<forall>k<length chunks. chunks ! k = slice xs (k * c) (k * c + c)) \<and>
     (\<forall>ch\<in>set chunks. length ch \<le> c) \<and>
     concat chunks = xs"

record DatabasePoolPlusConfig =
  deleteChunkMax :: nat
  insertChunkMax :: nat

text \<open>The configuration a pool gets when none is given (pool-proto.ts).\<close>

definition poolConfig :: DatabasePoolPlusConfig where
  "poolConfig = \<lparr>deleteChunkMax = 2000, insertChunkMax = 2000\<rparr>"


section \<open>Delete (delete-worker.ts)\<close>

record DeleteQueryOptions =
  startingQuery_d :: "sqltok option"
  finalQuery_d :: "sqltok option"
  tableName_d :: "string option"
  whereClause :: "sqltok option"

text \<open>The argument of delete: a record class, or one or more instances.\<close>

datatype 'r deleteTarget = Ctor DbRecordCtor | Records "'r OneOrMore"

text \<open>
  \<^verbatim>\<open>slice.map(r => sql.fragment`(${r.getWhereClause(true)!})`)\<close>: the first instance
  whose where clause raises, or is \<open>undefined\<close> and cannot be bound, ends the map.
\<close>

definition whereClauseSql :: "DbRecord list \<Rightarrow> error + sqltok list" where
  "whereClauseSql chunk =
     mapE (\<lambda>r. case getWhereClause r True of
                 Inl e \<Rightarrow> Inl e
               | Inr w \<Rightarrow>
                   sqlFragment [Text ''('', (case w of None \<Rightarrow> Param JUndefined | Some tok \<Rightarrow> tok), Text '')''])
       chunk"

text \<open>The statement of one chunk; the list of an empty chunk cannot be bound.\<close>

definition deleteChunkQuery :: "string \<Rightarrow> DbRecord list \<Rightarrow> error + sqltok" where
  "deleteChunkQuery tableName chunk =
     (case whereClauseSql chunk of
        Inl e \<Rightarrow> Inl e
      | Inr ws \<Rightarrow>
          sqlUnsafe [Text '' DELETE FROM '', Identifier (splitDot tableName),
                     Text '' WHERE '', Join ws (Fragment [Text '' OR '']), Text ''; ''])"

text \<open>
  The part of \<open>dbDeleteWorker\<close> before anything is sent: the validation and the list of
  statements. \<open>if (!tableName)\<close> refuses a table name that is not set and one that is
  the empty string.
\<close>

definition deleteQueries ::
  "DatabasePoolPlusConfig \<Rightarrow> DbRecord deleteTarget \<Rightarrow> DeleteQueryOptions
     \<Rightarrow> (error + sqltok list) option" where
  "deleteQueries cfg recordOrCtor options =
     (let record = (case recordOrCtor of Ctor c \<Rightarrow> None | Records rs \<Rightarrow> Some (flat rs));
          ctor = (case recordOrCtor of
                    Ctor c \<Rightarrow> Some c
                  | Records rs \<Rightarrow> (case flat rs of [] \<Rightarrow> None | r # _ \<Rightarrow> Some (constructor_r r)))
      in if (case record of Some [] \<Rightarrow> True | _ \<Rightarrow> False) then Some (Inl EmptyBatch)
         else if (case record of None \<Rightarrow> True | _ \<Rightarrow> False) \<and> whereClause options = None
         then Some (Inl MissingPredicate)
         else (case ctor of
                 None \<Rightarrow> Some (Inl TypeError)
               | Some c \<Rightarrow>
                   (case orElse (tableName_d options) (table (getConfig c)) of
                      None \<Rightarrow> Some (Inl MissingTable)
                    | Some tableName \<Rightarrow>
                        if tableName = [] then Some (Inl MissingTable)
                        else
                          (case whereClause options of
                             None \<Rightarrow>
                               (case record of
                                  None \<Rightarrow> Some (Inl TypeError)
                                | Some rs \<Rightarrow>
                                    chunkLoop (deleteChunkQuery tableName) (deleteChunkMax cfg) rs 0 [])
                           | Some w \<Rightarrow>
                               (case sqlUnsafe [Text '' DELETE FROM '', Identifier (splitDot tableName),
                                                Text '' WHERE '', w, Text ''; ''] of
                                  Inl e \<Rightarrow> Some (Inl e)
                                | Inr q \<Rightarrow> Some (Inr [q]))))))"


text \<open>
  \<open>dbDeleteWorker\<close>: the statements are sent as one transaction, then every instance
  saves its state. The result is the store as the call leaves it, and the error or the
  driver's results with the database.
\<close>

definition dbDeleteWorker ::
  "DatabasePoolPlusConfig \<Rightarrow> 'db driver \<Rightarrow> 'db \<Rightarrow> store \<Rightarrow> nat deleteTarget \<Rightarrow> DeleteQueryOptions
     \<Rightarrow> (store \<times> (error + (QueryResult list \<times> 'db))) option" where
  "dbDeleteWorker cfg t db st recordOrCtor options =
     (case deleteQueries cfg (map_deleteTarget st recordOrCtor) options of
        None \<Rightarrow> None
      | Some (Inl e) \<Rightarrow> Some (st, Inl e)
      | Some (Inr queries) \<Rightarrow>
          (case performQueries t db queries (startingQuery_d options) (finalQuery_d options) of
             Inl e \<Rightarrow> Some (st, Inl e)
           | Inr (res, db') \<Rightarrow>
               Some ((case recordOrCtor of Ctor c \<Rightarrow> st | Records rs \<Rightarrow> saveAll (flat rs) st),
                     Inr (res, db'))))"


section \<open>Insert, upsert, update (set-worker.ts)\<close>

datatype SetQueryResultType = None_rt | Record | PrimaryKeys

datatype Mode = Insert | Upsert | Update

record SetQueryOptions =
  startingQuery :: "sqltok option"
  finalQuery :: "sqltok option"
  conflictKey :: "string OneOrMore option"
  columns_o :: "columnsOpt option"
  tableName_o :: "string option"
  alterSql :: "(sqltok \<Rightarrow> sqltok) option"
  syncRecords :: bool
  resultType :: "SetQueryResultType option"

text \<open>The select columns that are primary keys:
  \<^verbatim>\<open>ctor.getSelectColumns().filter(c => primaryKeys.includes(c.dbName!))\<close>.\<close>

definition primaryKeyColumnsOf :: "DbRecordCtor \<Rightarrow> ColumnDetail list" where
  "primaryKeyColumnsOf ctor =
     filter (\<lambda>c. dbName c \<in> set (getPrimaryKeys ctor)) (getSelectColumns ctor)"

text \<open>
  The first lines of \<open>dbSetWorker\<close>: an unset result type is \<open>None\<close>, and \<open>syncRecords\<close>
  turns \<open>None\<close> into \<open>Record\<close>.
\<close>

definition resolveResultType :: "SetQueryOptions \<Rightarrow> SetQueryResultType" where
  "resolveResultType opt =
     (let rt = (case resultType opt of None \<Rightarrow> None_rt | Some t \<Rightarrow> t)
      in if syncRecords opt \<and> rt = None_rt then Record else rt)"

text \<open>Truthiness of the \<open>conflictKey\<close> option: an empty string is falsy, an array never.\<close>

fun conflictKeyGiven :: "string OneOrMore option \<Rightarrow> bool" where
  "conflictKeyGiven None = False"
| "conflictKeyGiven (Some (One s)) = (s \<noteq> [])"
| "conflictKeyGiven (Some (More ks)) = True"

text \<open>\<open>new Map(pairs)\<close>: a later pair with a key that exists replaces its value in place.\<close>

definition mkMap :: "('k \<times> 'v) list \<Rightarrow> ('k \<times> 'v) list" where
  "mkMap pairs = fold (\<lambda>(k, v). AList.update k v) pairs []"

text \<open>The keys of the own enumerable properties of every instance, \<open>_original\<close> apart.\<close>

definition knownKeysOf :: "DbRecord list \<Rightarrow> string list" where
  "knownKeysOf record =
     concat (map (\<lambda>r. filter (\<lambda>key. key \<noteq> ''_original'') (map fst (props r))) record)"

text \<open>The validation loop over the instances: all of the class of the first.\<close>

definition sameType :: "DbRecordCtor \<Rightarrow> DbRecord list \<Rightarrow> bool" where
  "sameType ctor record = list_all (\<lambda>r. ctorId (constructor_r r) = ctorId ctor) record"

definition getColumns ::
  "DbRecordCtor \<Rightarrow> Mode \<Rightarrow> SetQueryOptions \<Rightarrow> string list \<Rightarrow> DbRecord list
     \<Rightarrow> ColumnDetail list \<times> ColumnDetail list" where
  "getColumns ctor mode options knownKeys records =
     (let columns0 = filter (\<lambda>c. name c \<in> set knownKeys) (getInsertColumns ctor);
          columns1 =
            (case columns_o options of
               Some (Names ns) \<Rightarrow> filter (\<lambda>c. name c \<in> set ns) columns0
             | _ \<Rightarrow>
                 if mode = Update then
                   (let allChangedNames = concat (map (\<lambda>r. map name (getChangedColumns r)) records)
                    in filter (\<lambda>c. name c \<in> set allChangedNames) columns0)
                 else columns0);
          updatableColumns = filter (\<lambda>c. \<not> excludeFromUpdate (config c)) columns1
      in (columns1, updatableColumns))"

text \<open>\<open>Raw\<close> column definitions: \<^verbatim>\<open>"<dbName>" <type>\<close> and, in update mode, for a
  primary key also \<^verbatim>\<open>"original_<dbName>" <type>\<close>.\<close>

definition colDefinition :: "string \<Rightarrow> string \<Rightarrow> sqltok" where
  "colDefinition n ty = Raw ([CHR 0x22] @ n @ [CHR 0x22] @ '' '' @ ty)"

fun colDefinitions :: "Mode \<Rightarrow> ColumnDetail list \<Rightarrow> error + sqltok list" where
  "colDefinitions mode [] = Inr []"
| "colDefinitions mode (c # cs) =
     (if \<not> isValidPostgresIdentifier (dbName c) then Inl (InvalidIdentifier (dbName c))
      else (case colDefinitions mode cs of
              Inl e \<Rightarrow> Inl e
            | Inr defs \<Rightarrow>
                Inr (colDefinition (dbName c) (type_c (config c)) #
                     (if mode = Update \<and> primaryKey (config c) \<noteq> None
                      then [colDefinition (''original_'' @ dbName c) (type_c (config c))]
                      else []) @ defs)))"

text \<open>The output columns: the insertable columns, then (upsert on the primary key, and
  update) the primary-key columns, keyed by property name.\<close>

definition outputColumnsOf ::
  "Mode \<Rightarrow> SetQueryOptions \<Rightarrow> ColumnDetail list \<Rightarrow> ColumnDetail list \<Rightarrow> ColumnDetail list" where
  "outputColumnsOf mode options insertableColumns primaryKeyColumns =
     map snd
       (fold (\<lambda>pkCol m. AList.update (name pkCol) pkCol m)
          (if (mode = Upsert \<and> \<not> conflictKeyGiven (conflictKey options)) \<or> mode = Update
           then primaryKeyColumns else [])
          (mkMap (map (\<lambda>c. (name c, c)) insertableColumns)))"

text \<open>One step of the loop that fills an output object.\<close>

definition outputField ::
  "Mode \<Rightarrow> string list \<Rightarrow> (string \<times> transform) list \<Rightarrow> DbRecord \<Rightarrow> ColumnDetail
     \<Rightarrow> jsobject \<Rightarrow> jsobject" where
  "outputField mode knownKeys transformerMap r c res =
     (let recordKey = name c;
          dbKey = dbName c;
          isPrimaryKey = (primaryKey (config c) \<noteq> None);
          v0 = getProp (props r) recordKey;
          v = (if nullish v0 then (if recordKey \<in> set knownKeys then JNull else JUndefined) else v0);
          res1 = AList.update dbKey
                   (case map_of transformerMap recordKey of
                      Some (Fn f) \<Rightarrow> if \<not> nullish v then f v else v
                    | _ \<Rightarrow> v) res
      in if mode = Update \<and> isPrimaryKey
         then AList.update (''original_'' @ dbKey)
                (getProp (case original_r r of Some orig \<Rightarrow> orig | None \<Rightarrow> props r) recordKey) res1
         else res1)"

definition outputObject ::
  "Mode \<Rightarrow> string list \<Rightarrow> (string \<times> transform) list \<Rightarrow> ColumnDetail list
     \<Rightarrow> nat \<times> DbRecord \<Rightarrow> jsobject" where
  "outputObject mode knownKeys transformerMap outputColumns ir =
     assign (fold (outputField mode knownKeys transformerMap (snd ir)) outputColumns [])
       [(''__dbRecordIndex__'', JNum (int (fst ir)))]"

definition createOutputObjects ::
  "Mode \<Rightarrow> SetQueryOptions \<Rightarrow> string list \<Rightarrow> (string \<times> transform) list
     \<Rightarrow> ColumnDetail list \<Rightarrow> ColumnDetail list \<Rightarrow> DbRecord list
     \<Rightarrow> error + (sqltok list \<times> jsobject list)" where
  "createOutputObjects mode options knownKeys transformerMap insertableColumns primaryKeyColumns records =
     (let outputColumns = outputColumnsOf mode options insertableColumns primaryKeyColumns
      in case colDefinitions mode outputColumns of
           Inl e \<Rightarrow> Inl e
         | Inr defs \<Rightarrow>
             Inr (defs @ [Raw ([CHR 0x22] @ ''__dbRecordIndex__'' @ [CHR 0x22] @ '' int4'')],
                  map (outputObject mode knownKeys transformerMap outputColumns)
                    (enumerate 0 records)))"


record PrepareQueryOptions =
  keyIdentifiers :: sqltok
  updatableKeyIdentifiers :: sqltok
  tableIdentifier :: sqltok
  isResultTypeQuery :: bool
  upsertStatement :: "sqltok option"
  updateSetClauseTokens :: "sqltok list option"
  updateWhereClauseTokens :: "sqltok list option"
  fromAlias :: sqltok
  primaryKeyColumns_p :: sqltok
  selectColumns_p :: sqltok

definition commaSep :: sqltok where
  "commaSep = Fragment [Text '', '']"

text \<open>\<^verbatim>\<open>map.size < 2 ? s : sql.fragment`(${s})`\<close>.\<close>

definition parenthesizeIfMultipleKeys :: "('k \<times> 'v) list \<Rightarrow> sqltok \<Rightarrow> error + sqltok" where
  "parenthesizeIfMultipleKeys m s =
     (if length m < 2 then Inr s else sqlFragment [Text ''('', s, Text '')''])"

text \<open>The conflict keys of insert and upsert: the option when it is truthy, the primary
  keys of the type otherwise.\<close>

definition conflictKeysOf :: "SetQueryOptions \<Rightarrow> string list \<Rightarrow> string list" where
  "conflictKeysOf options primaryKeys =
     (if conflictKeyGiven (conflictKey options)
      then (case conflictKey options of Some k \<Rightarrow> flat k | None \<Rightarrow> [])
      else primaryKeys)"

text \<open>
  The upsert clause: empty for insert and when there is no conflict key. The two sides
  of the \<open>SET\<close> assignment are evaluated first, then the template binds its values; the
  list of the updatable keys cannot be bound when it is empty.
\<close>

definition upsertClause ::
  "Mode \<Rightarrow> string list \<Rightarrow> (string \<times> string) list \<Rightarrow> (string \<times> string) list \<Rightarrow> sqltok
     \<Rightarrow> error + sqltok" where
  "upsertClause mode conflictKeys keyMap updatableKeyMap updatableKeyIds =
     (if mode = Upsert \<and> conflictKeys \<noteq> [] then
        (let updateSetValues =
               Join (map (\<lambda>k. Fragment [Text ''EXCLUDED.'', Identifier [k]]) (map snd updatableKeyMap))
                 commaSep
         in case parenthesizeIfMultipleKeys keyMap updatableKeyIds of
              Inl e \<Rightarrow> Inl e
            | Inr lhs \<Rightarrow>
                (case parenthesizeIfMultipleKeys updatableKeyMap updateSetValues of
                   Inl e \<Rightarrow> Inl e
                 | Inr rhs \<Rightarrow>
                     sqlFragment
                       [Text '' ON CONFLICT ('',
                        Join (map (\<lambda>k. Identifier [k]) conflictKeys) commaSep,
                        Text '') DO UPDATE SET '', lhs, Text '' = '', rhs, Text '' '']))
      else Inr (Fragment []))"

text \<open>
  The options every chunk's statement is prepared from; the upsert clause is built
  here, and update on a type without primary keys raises here. A template whose values
  are identifiers and fragments only binds without error and is written as its token.
\<close>

definition prepareOptions ::
  "DbRecordCtor \<Rightarrow> Mode \<Rightarrow> SetQueryOptions \<Rightarrow> string \<Rightarrow> string list \<Rightarrow> ColumnDetail list
     \<Rightarrow> (string \<times> string) list \<Rightarrow> (string \<times> string) list \<Rightarrow> error + PrepareQueryOptions" where
  "prepareOptions ctor mode options tableName primaryKeys primaryKeyColumns keyMap updatableKeyMap =
     (let alias = Fragment [Text ''__source__''];
          base = \<lparr>keyIdentifiers = Join (map (\<lambda>k. Identifier [k]) (map snd keyMap)) commaSep,
                  updatableKeyIdentifiers =
                    Join (map (\<lambda>k. Identifier [k]) (map snd updatableKeyMap)) commaSep,
                  tableIdentifier = Identifier (splitDot tableName),
                  isResultTypeQuery = (resolveResultType options \<noteq> None_rt),
                  upsertStatement = None,
                  updateSetClauseTokens = None,
                  updateWhereClauseTokens = None,
                  fromAlias = alias,
                  primaryKeyColumns_p = Join (map (\<lambda>pk. Param (JStr (dbName pk))) primaryKeyColumns) commaSep,
                  selectColumns_p =
                    Join (map (\<lambda>pk. Param (JStr (dbName pk))) (getSelectColumns ctor)) commaSep\<rparr>
      in if mode = Insert \<or> mode = Upsert then
           (case upsertClause mode (conflictKeysOf options primaryKeys) keyMap updatableKeyMap
                   (updatableKeyIdentifiers base) of
              Inl e \<Rightarrow> Inl e
            | Inr clause \<Rightarrow> Inr (base\<lparr>upsertStatement := Some clause\<rparr>))
         else if primaryKeys = [] then Inl MissingPrimaryKey
         else
           Inr (base\<lparr>updateSetClauseTokens :=
                        Some (map (\<lambda>k. Fragment [Identifier [k], Text '' = '', alias, Text ''.'', Identifier [k]])
                                (map snd updatableKeyMap)),
                      updateWhereClauseTokens :=
                        Some (map (\<lambda>k. Fragment [Text '' __update_table__.'', Identifier [k], Text '' = '',
                                                  alias, Text ''.'', Identifier [''original_'' @ k], Text '' ''])
                                primaryKeys)\<rparr>))"

text \<open>A field of the prepared options that the mode at hand did not set is \<open>undefined\<close>.\<close>

definition optTok :: "sqltok option \<Rightarrow> sqltok" where
  "optTok t = (case t of None \<Rightarrow> Param JUndefined | Some tok \<Rightarrow> tok)"

definition optToks :: "sqltok list option \<Rightarrow> sqltok \<Rightarrow> sqltok" where
  "optToks ts sep = (case ts of None \<Rightarrow> Param JUndefined | Some toks \<Rightarrow> Join toks sep)"

text \<open>The fixed text of the statement that returns rows.\<close>

definition withHead :: string where
  "withHead = '' WITH __db_records__ AS ( SELECT __db_records__.*, row_number() OVER(ORDER BY __db_records__.\"__dbRecordIndex__\") as __row_number__ FROM ''"

definition withMiddle :: string where
  "withMiddle = '' ), set_res as (''"

definition withTail :: string where
  "withTail = ''), new_records as (select set_res.*, row_number() over() as __row_number__ from set_res) SELECT rec.\"__dbRecordIndex__\", new_records.* FROM __db_records__ rec INNER JOIN new_records USING(__row_number__) ''"

text \<open>
  The \<open>RETURNING\<close> clause of a statement that returns rows: the returned columns are
  the select columns for the result type \<open>Record\<close> and the primary-key columns
  otherwise; the list cannot be bound when there is no such column.
\<close>

definition returningClause :: "DbRecordCtor \<Rightarrow> Mode \<Rightarrow> SetQueryOptions \<Rightarrow> ColumnDetail list \<Rightarrow> error + sqltok" where
  "returningClause ctor mode options primaryKeyColumns =
     (let returningColumns =
            (if resolveResultType options = Record then getSelectColumns ctor else primaryKeyColumns)
      in if mode = Insert \<or> mode = Upsert
         then sqlFragment [Text '' RETURNING '',
                           Join (map (\<lambda>c. Fragment [Identifier [dbName c]]) returningColumns) commaSep,
                           Text '' '']
         else sqlFragment [Text '' RETURNING '',
                           Join (map (\<lambda>c. Fragment [Text ''__update_table__.'', Identifier [dbName c]])
                                   returningColumns) commaSep,
                           Text '' ''])"

text \<open>\<open>prepareQuery\<close>: the statement of one chunk.\<close>

definition prepareQuery ::
  "DbRecordCtor \<Rightarrow> Mode \<Rightarrow> SetQueryOptions \<Rightarrow> ColumnDetail list \<Rightarrow> sqltok list
     \<Rightarrow> jsobject list \<Rightarrow> PrepareQueryOptions \<Rightarrow> error + sqltok" where
  "prepareQuery ctor mode options primaryKeyColumns colDefinitionList objectBlock pq =
     (let rtq = isResultTypeQuery pq
      in case sqlFragment [Text '' jsonb_to_recordset('', Jsonb objectBlock, Text '') AS '',
                           (if \<not> rtq then fromAlias pq else Fragment [Text ''__db_records__'']),
                           Text '' ('', Join colDefinitionList commaSep, Text '') ''] of
           Inl e \<Rightarrow> Inl e
         | Inr dbRecordsJsonbSql \<Rightarrow>
             (case (if rtq then returningClause ctor mode options primaryKeyColumns
                    else Inr (Fragment [])) of
                Inl e \<Rightarrow> Inl e
              | Inr returning \<Rightarrow>
                  (case (if mode = Insert \<or> mode = Upsert then
                           sqlUnsafe
                             [Text '' INSERT INTO '', tableIdentifier pq, Text '' ('', keyIdentifiers pq,
                              Text '') SELECT '', keyIdentifiers pq, Text '' FROM '',
                              (if \<not> rtq then dbRecordsJsonbSql
                               else Fragment [Text ''__db_records__ as '', fromAlias pq, Text '' ORDER BY '',
                                              fromAlias pq, Text ''.\"__row_number__\"'']),
                              Text '' '', optTok (upsertStatement pq), Text '' '', returning, Text '' '']
                         else
                           sqlUnsafe
                             [Text '' UPDATE '', tableIdentifier pq, Text '' __update_table__ SET '',
                              optToks (updateSetClauseTokens pq) commaSep, Text '' FROM '',
                              (if \<not> rtq then dbRecordsJsonbSql
                               else Fragment [Text ''(SELECT * FROM __db_records__ ORDER BY __db_records__.\"__row_number__\") '',
                                              fromAlias pq]),
                              Text '' WHERE '', optToks (updateWhereClauseTokens pq) (Fragment [Text '' AND '']),
                              Text '' '', returning, Text '' '']) of
                     Inl e \<Rightarrow> Inl e
                   | Inr setSql \<Rightarrow>
                       if \<not> rtq then Inr setSql
                       else sqlUnsafe [Text withHead, dbRecordsJsonbSql, Text withMiddle, setSql,
                                       Text withTail])))"

text \<open>\<open>createQueries\<close>: the prepared options, then one statement per chunk of the
  output objects, each passed through \<open>alterSql\<close> when that is given.\<close>

definition createQueries ::
  "DatabasePoolPlusConfig \<Rightarrow> DbRecordCtor \<Rightarrow> Mode \<Rightarrow> SetQueryOptions \<Rightarrow> string \<Rightarrow> string list
     \<Rightarrow> ColumnDetail list \<Rightarrow> (string \<times> string) list \<Rightarrow> (string \<times> string) list
     \<Rightarrow> sqltok list \<Rightarrow> jsobject list \<Rightarrow> (error + sqltok list) option" where
  "createQueries cfg ctor mode options tableName primaryKeys primaryKeyColumns keyMap updatableKeyMap
       colDefinitionList outputObjects =
     (case prepareOptions ctor mode options tableName primaryKeys primaryKeyColumns keyMap updatableKeyMap of
        Inl e \<Rightarrow> Some (Inl e)
      | Inr pq \<Rightarrow>
          chunkLoop
            (\<lambda>objectBlock.
               case prepareQuery ctor mode options primaryKeyColumns colDefinitionList objectBlock pq of
                 Inl e \<Rightarrow> Inl e
               | Inr q \<Rightarrow> Inr ((case alterSql options of None \<Rightarrow> id | Some f \<Rightarrow> f) q))
            (insertChunkMax cfg) outputObjects 0 [])"


subsection \<open>Reconciliation\<close>

text \<open>
  How a loop body ends: it falls through to the next iteration, it returns from the
  whole function, or it throws; each with the store as it is then.
\<close>

datatype 'a flow = Next 'a | Returned 'a | Thrown error 'a

text \<open>
  The inner loop over the column set: \<open>None\<close> is the \<open>return\<close> on a column the row
  lacks or a column configured with \<open>in: false\<close>.
\<close>

fun columnDataOf :: "ColumnDetail list \<Rightarrow> jsobject \<Rightarrow> jsobject \<Rightarrow> jsobject option" where
  "columnDataOf [] row columnData = Some columnData"
| "columnDataOf (col # cols) row columnData =
     (if \<not> hasOwnProperty row (dbName col) then None
      else if isFalse (in_c (config col)) then None
      else
        (let v = getProp row (dbName col)
         in columnDataOf cols row
              (AList.update (name col)
                 (case in_c (config col) of
                    Fn f \<Rightarrow> if \<not> nullish v then f v else v
                  | Flag b \<Rightarrow> v)
                 columnData)))"

text \<open>\<open>record[row.__dbRecordIndex__]\<close>: the position in the batch, if there is one.\<close>

definition recordAt :: "'a list \<Rightarrow> jsobject \<Rightarrow> nat option" where
  "recordAt record row =
     (case map_of row ''__dbRecordIndex__'' of
        Some (JNum i) \<Rightarrow> if 0 \<le> i \<and> nat i < length record then Some (nat i) else None
      | _ \<Rightarrow> None)"

text \<open>
  The body of the loop over the rows: \<open>Object.assign\<close> writes to the object behind the
  reference at the row's index.
\<close>

definition reconcileRow :: "ColumnDetail list \<Rightarrow> nat list \<Rightarrow> store \<Rightarrow> jsobject \<Rightarrow> store flow" where
  "reconcileRow columnSet record st row =
     (case columnDataOf columnSet row [] of
        None \<Rightarrow> Returned st
      | Some columnData \<Rightarrow>
          (case recordAt record row of
             None \<Rightarrow> Thrown TypeError st
           | Some i \<Rightarrow>
               Next (st(record ! i := (st (record ! i))\<lparr>props := assign (props (st (record ! i))) columnData\<rparr>))))"

fun reconcileRows :: "ColumnDetail list \<Rightarrow> nat list \<Rightarrow> store \<Rightarrow> jsobject list \<Rightarrow> store flow" where
  "reconcileRows columnSet record st [] = Next st"
| "reconcileRows columnSet record st (row # rest) =
     (case reconcileRow columnSet record st row of
        Next st' \<Rightarrow> reconcileRows columnSet record st' rest
      | Returned st' \<Rightarrow> Returned st'
      | Thrown e st' \<Rightarrow> Thrown e st')"

fun reconcileResults :: "ColumnDetail list \<Rightarrow> nat list \<Rightarrow> store \<Rightarrow> QueryResult list \<Rightarrow> store flow" where
  "reconcileResults columnSet record st [] = Next st"
| "reconcileResults columnSet record st (result # rest) =
     (case reconcileRows columnSet record st (rows result) of
        Next st' \<Rightarrow> reconcileResults columnSet record st' rest
      | Returned st' \<Rightarrow> Returned st'
      | Thrown e st' \<Rightarrow> Thrown e st')"

definition updateDbRecordObjects ::
  "DbRecordCtor \<Rightarrow> SetQueryResultType \<Rightarrow> ColumnDetail list \<Rightarrow> nat list \<Rightarrow> store \<Rightarrow> QueryResult list
     \<Rightarrow> store flow" where
  "updateDbRecordObjects ctor rt primaryKeyColumns record st results =
     reconcileResults (if rt = PrimaryKeys then primaryKeyColumns else getSelectColumns ctor)
       record st results"


subsection \<open>The worker\<close>

text \<open>
  The columns and the output of a batch as the worker computes them: \<open>getColumns\<close> and
  \<open>createOutputObjects\<close> are closures over the known keys, the transformer map and the
  primary-key columns of the call.
\<close>

definition batchColumns ::
  "DbRecordCtor \<Rightarrow> Mode \<Rightarrow> SetQueryOptions \<Rightarrow> DbRecord list \<Rightarrow> ColumnDetail list \<times> ColumnDetail list" where
  "batchColumns ctor mode options record = getColumns ctor mode options (knownKeysOf record) record"

definition batchOutput ::
  "DbRecordCtor \<Rightarrow> Mode \<Rightarrow> SetQueryOptions \<Rightarrow> DbRecord list \<Rightarrow> error + (sqltok list \<times> jsobject list)" where
  "batchOutput ctor mode options record =
     (let insertableColumns = fst (batchColumns ctor mode options record);
          transformerMap = mkMap (map (\<lambda>c. (name c, out_c (config c))) insertableColumns)
      in createOutputObjects mode options (knownKeysOf record) transformerMap insertableColumns
           (primaryKeyColumnsOf ctor) record)"

text \<open>
  The part of \<open>dbSetWorker\<close> before anything is sent: the validation, in the order of
  the source, and the statements. \<open>None\<close> is the chunk loop that never ends.
\<close>

definition setQueries ::
  "DatabasePoolPlusConfig \<Rightarrow> DbRecord OneOrMore \<Rightarrow> Mode \<Rightarrow> SetQueryOptions
     \<Rightarrow> (error + sqltok list) option" where
  "setQueries cfg record0 mode options =
     (let record = flat record0
      in case record of
           [] \<Rightarrow> Some (Inl EmptyBatch)
         | r0 # _ \<Rightarrow>
             if (case alterSql options of None \<Rightarrow> False | Some f \<Rightarrow> True) \<and> syncRecords options
             then Some (Inl IncompatibleOptions)
             else
               (let ctor = constructor_r r0
                in case orElse (tableName_o options) (table (getConfig ctor)) of
                     None \<Rightarrow> Some (Inl MissingTable)
                   | Some tableName \<Rightarrow>
                       if tableName = [] then Some (Inl MissingTable)
                       else if \<not> sameType ctor record then Some (Inl MixedTypes)
                       else
                         (let insertableColumns = fst (batchColumns ctor mode options record);
                              updatableColumns = snd (batchColumns ctor mode options record);
                              keyMap = mkMap (map (\<lambda>c. (name c, dbName c)) insertableColumns);
                              updatableKeyMap = mkMap (map (\<lambda>c. (name c, dbName c)) updatableColumns)
                          in if (mode = Update \<and> updatableColumns = []) \<or> insertableColumns = []
                             then Some (Inl NoColumnsToUpdate)
                             else
                               (case batchOutput ctor mode options record of
                                  Inl e \<Rightarrow> Some (Inl e)
                                | Inr (colDefinitionList, outputObjects) \<Rightarrow>
                                    createQueries cfg ctor mode options tableName (getPrimaryKeys ctor)
                                      (primaryKeyColumnsOf ctor) keyMap updatableKeyMap colDefinitionList
                                      outputObjects))))"

text \<open>
  \<open>dbSetWorker\<close>: the statements are sent as one transaction; with a result type other
  than \<open>None\<close> every result (those of the starting and the final query too) is
  reconciled onto the instances; every instance then saves its state. The result is the
  store as the call leaves it, and the error or the driver's results with the database.
\<close>

definition dbSetWorker ::
  "DatabasePoolPlusConfig \<Rightarrow> 'db driver \<Rightarrow> 'db \<Rightarrow> store \<Rightarrow> nat OneOrMore \<Rightarrow> Mode \<Rightarrow> SetQueryOptions
     \<Rightarrow> (store \<times> (error + (QueryResult list \<times> 'db))) option" where
  "dbSetWorker cfg t db st record0 mode options =
     (case setQueries cfg (map_OneOrMore st record0) mode options of
        None \<Rightarrow> None
      | Some (Inl e) \<Rightarrow> Some (st, Inl e)
      | Some (Inr queries) \<Rightarrow>
          (case performQueries t db queries (startingQuery options) (finalQuery options) of
             Inl e \<Rightarrow> Some (st, Inl e)
           | Inr (res, db') \<Rightarrow>
               (case flat record0 of
                  [] \<Rightarrow> Some (st, Inl EmptyBatch)
                | a0 # rest \<Rightarrow>
                    (let record = a0 # rest;
                         ctor = constructor_r (st a0);
                         rt = resolveResultType options
                     in if rt \<noteq> None_rt then
                          (case updateDbRecordObjects ctor rt (primaryKeyColumnsOf ctor) record st res of
                             Thrown e st' \<Rightarrow> Some (st', Inl e)
                           | Next st' \<Rightarrow> Some (saveAll record st', Inr (res, db'))
                           | Returned st' \<Rightarrow> Some (saveAll record st', Inr (res, db')))
                        else Some (saveAll record st, Inr (res, db'))))))"


section \<open>Select (get-worker.ts)\<close>

text \<open>
  \<open>mergeConfigs([ctorConfig.query, opt])\<close>: an option of the call replaces the default
  of the record type; with neither, every option is unset.
\<close>

definition mergeGetOptions :: "GetQueryOptions option \<Rightarrow> GetQueryOptions option \<Rightarrow> GetQueryOptions" where
  "mergeGetOptions dflt opt =
     (let none = \<lparr>override = None, append_q = None, columns_q = None, tableName_q = None\<rparr>;
          a = (case dflt of None \<Rightarrow> none | Some x \<Rightarrow> x);
          b = (case opt of None \<Rightarrow> none | Some x \<Rightarrow> x)
      in \<lparr>override = (case override b of None \<Rightarrow> override a | Some v \<Rightarrow> Some v),
          append_q = (case append_q b of None \<Rightarrow> append_q a | Some v \<Rightarrow> Some v),
          columns_q = (case columns_q b of None \<Rightarrow> columns_q a | Some v \<Rightarrow> Some v),
          tableName_q = (case tableName_q b of None \<Rightarrow> tableName_q a | Some v \<Rightarrow> Some v)\<rparr>)"

text \<open>The select columns the options ask for.\<close>

definition selectedColumns :: "DbRecordCtor \<Rightarrow> GetQueryOptions \<Rightarrow> ColumnDetail list" where
  "selectedColumns ctor options =
     filter (\<lambda>c. case columns_q options of
                    Some AllColumns \<Rightarrow> True
                  | Some (Names ns) \<Rightarrow> name c \<in> set ns
                  | None \<Rightarrow> autoLoad (config c))
       (getSelectColumns ctor)"

text \<open>The two maps of the worker, from database name to property name and to read
  transformer.\<close>

definition keyMapOf :: "ColumnDetail list \<Rightarrow> (string \<times> string) list" where
  "keyMapOf cols = mkMap (map (\<lambda>c. (dbName c, name c)) cols)"

definition transformerMapOf :: "ColumnDetail list \<Rightarrow> (string \<times> transform) list" where
  "transformerMapOf cols = mkMap (map (\<lambda>c. (dbName c, in_c (config c))) cols)"

text \<open>\<open>keyMap.get(key) ?? key\<close>.\<close>

definition resKeyOf :: "(string \<times> string) list \<Rightarrow> string \<Rightarrow> string" where
  "resKeyOf keyMap key = (case map_of keyMap key of Some n \<Rightarrow> n | None \<Rightarrow> key)"

text \<open>
  The value \<open>fixupResult\<close> stores for an entry of the row:
  \<^verbatim>\<open>(typeof maybeTransformer === 'function') ? maybeTransformer(value) : value ?? undefined\<close>.
\<close>

definition fixedValue :: "(string \<times> transform) list \<Rightarrow> string \<Rightarrow> jsval \<Rightarrow> jsval" where
  "fixedValue transformerMap key v =
     (case map_of transformerMap key of
        Some (Fn f) \<Rightarrow> f v
      | _ \<Rightarrow> if nullish v then JUndefined else v)"

text \<open>
  \<open>fixupResult\<close>: the row with its keys mapped to property names and its values passed
  through the read transformers, as a new instance with its state saved.
\<close>

definition fixupResult ::
  "DbRecordCtor \<Rightarrow> (string \<times> string) list \<Rightarrow> (string \<times> transform) list \<Rightarrow> jsobject \<Rightarrow> DbRecord" where
  "fixupResult ctor keyMap transformerMap obj =
     (let fixedObj =
            fold (\<lambda>kv fixedObj.
                    AList.update (resKeyOf keyMap (fst kv)) (fixedValue transformerMap (fst kv) (snd kv)) fixedObj)
              obj []
      in saveState \<lparr>constructor_r = ctor, props = assign [] fixedObj, original_r = None\<rparr>)"

text \<open>
  The query of the worker: the override with what is appended, or the select of the
  chosen columns; the list of the columns cannot be bound when no column is chosen.
\<close>

definition selectQuery :: "GetQueryOptions \<Rightarrow> string \<Rightarrow> ColumnDetail list \<Rightarrow> error + sqltok" where
  "selectQuery options tableName cols =
     (let appended = (case append_q options of None \<Rightarrow> Fragment [] | Some a \<Rightarrow> a)
      in case override options of
           Some ov \<Rightarrow> sqlUnsafe [ov, Text '' '', appended]
         | None \<Rightarrow>
             sqlUnsafe [Text '' SELECT '', Join (map (\<lambda>c. Identifier [dbName c]) cols) commaSep,
                        Text '' FROM '', Identifier (splitDot tableName),
                        Text '' '', appended, Text '' ''])"

text \<open>What a fetch method of the pool gives, and what the worker makes of it.\<close>

datatype selectResult = Plain jsval | Row jsobject | RowList "jsobject list"

datatype getResult = PlainResult jsval | Instance DbRecord | Instances "DbRecord list"

type_synonym 'db selectDriver = "'db \<Rightarrow> string \<Rightarrow> sqltok \<Rightarrow> error + selectResult"

definition dbGetWorker ::
  "'db selectDriver \<Rightarrow> 'db \<Rightarrow> string \<Rightarrow> DbRecordCtor \<Rightarrow> GetQueryOptions option \<Rightarrow> error + getResult" where
  "dbGetWorker t db poolMethodKey ctor opt =
     (let ctorConfig = getConfig ctor;
          options = mergeGetOptions (query ctorConfig) opt;
          tableName = (case orElse (tableName_q options) (table ctorConfig) of None \<Rightarrow> [] | Some tn \<Rightarrow> tn)
      in if tableName = [] \<and> override options = None then Inl MissingTable
         else
           (let cols = selectedColumns ctor options;
                keyMap = keyMapOf cols;
                transformerMap = transformerMapOf cols
            in case selectQuery options tableName cols of
                 Inl e \<Rightarrow> Inl e
               | Inr q \<Rightarrow>
                   (case t db poolMethodKey q of
                      Inl e \<Rightarrow> Inl e
                    | Inr (Plain v) \<Rightarrow> Inr (PlainResult v)
                    | Inr (Row obj) \<Rightarrow> Inr (Instance (fixupResult ctor keyMap transformerMap obj))
                    | Inr (RowList objs) \<Rightarrow>
                        Inr (Instances (map (fixupResult ctor keyMap transformerMap) objs)))))"


section \<open>Registration (the record decorator of db-record.ts)\<close>

text \<open>
  \<open>DbRecord.record(cfg)(ctor)\<close>: the own columns, each given its database name when it
  has none (the case converter is outside the repository and a parameter), then the
  columns of every ancestor, nearest first, that are not there yet. The decorator has no
  failing branch. \<open>lineage\<close> is the stored configuration of each ancestor class.
\<close>

definition ownColumn :: "(string \<Rightarrow> string) \<Rightarrow> bool \<Rightarrow> string \<times> ColumnConfig \<Rightarrow> string \<times> ColumnConfig" where
  "ownColumn camelToSnake conv kc =
     (fst kc,
      (if name_c (snd kc) = None \<or> name_c (snd kc) = Some []
       then (snd kc)\<lparr>name_c := Some (if conv then camelToSnake (fst kc) else fst kc)\<rparr>
       else snd kc))"

definition addLineage ::
  "(string \<times> ColumnConfig) list \<Rightarrow> (string \<times> ColumnConfig) list \<Rightarrow> (string \<times> ColumnConfig) list" where
  "addLineage cols outputColumns =
     fold (\<lambda>kc out. if map_of out (fst kc) \<noteq> None then out else AList.update (fst kc) (snd kc) out)
       cols outputColumns"

definition record_decorator ::
  "(string \<Rightarrow> string) \<Rightarrow> RecordConfig \<Rightarrow> (string \<times> ColumnConfig) list
     \<Rightarrow> RecordConfigWithColumns list \<Rightarrow> RecordConfigWithColumns" where
  "record_decorator camelToSnake cfg ownColumnsConfig lineage =
     (let conv = (case convertCases cfg of None \<Rightarrow> True | Some b \<Rightarrow> b);
          own = fold (\<lambda>kc out. AList.update (fst kc) (snd (ownColumn camelToSnake conv kc)) out)
                  ownColumnsConfig [];
          outputColumns = fold (\<lambda>anc out. addLineage (columns anc) out) lineage own
      in \<lparr>table = table cfg, convertCases = Some conv, query = query cfg, columns = outputColumns\<rparr>)"


section \<open>Sample record types, instances and drivers\<close>

text \<open>
  A record type with two columns, \<open>id\<close> (the primary key) and \<open>name\<close>, on the table
  \<open>users\<close>, and instances of it: the concrete inputs the properties below are
  evaluated at.
\<close>

definition idColumn :: ColumnConfig where
  "idColumn = \<lparr>exclude = False, in_c = Flag True, out_c = Flag True, excludeFromUpdate = False,
                name_c = Some ''id'', type_c = ''int4'', autoLoad = True, primaryKey = Some PkTrue,
                transformTimestamps = True\<rparr>"

definition nameColumn :: ColumnConfig where
  "nameColumn = \<lparr>exclude = False, in_c = Flag True, out_c = Flag True, excludeFromUpdate = False,
                  name_c = Some ''name'', type_c = ''text'', autoLoad = True, primaryKey = None,
                  transformTimestamps = True\<rparr>"

definition User :: DbRecordCtor where
  "User = \<lparr>ctorId = 1, ctorName = ''User'',
            config_s = \<lparr>table = Some ''users'', convertCases = Some True, query = None,
                         columns = [(''id'', idColumn), (''name'', nameColumn)]\<rparr>\<rparr>"

definition user :: "int \<Rightarrow> string \<Rightarrow> DbRecord" where
  "user i n = \<lparr>constructor_r = User, props = [(''id'', JNum i), (''name'', JStr n)], original_r = None\<rparr>"

text \<open>
  A store with two instances of the sample type, behind the references 0 and 1; and one
  whose second instance has the key 0.
\<close>

definition twoUsers :: store where
  "twoUsers a = (if a = 0 then user 1 ''a'' else user 2 ''b'')"




definition Odd :: DbRecordCtor where
  "Odd = \<lparr>ctorId = 3, ctorName = ''Odd'',
           config_s = record_decorator (\<lambda>s. s) \<lparr>table = Some ''odd'', convertCases = None, query = None\<rparr>
                        [(''label'', nameColumn\<lparr>name_c := Some ''bad name''\<rparr>)] []\<rparr>"

definition oddRecord :: DbRecord where
  "oddRecord = \<lparr>constructor_r = Odd, props = [(''label'', JStr ''x'')], original_r = None\<rparr>"

definition oddStore :: store where
  "oddStore a = oddRecord"



definition Unnamed :: DbRecordCtor where
  "Unnamed = \<lparr>ctorId = 5, ctorName = ''Unnamed'',
               config_s = \<lparr>table = Some [], convertCases = Some True, query = None,
                            columns = [(''id'', idColumn), (''name'', nameColumn)]\<rparr>\<rparr>"

definition unnamedRecord :: DbRecord where
  "unnamedRecord = \<lparr>constructor_r = Unnamed, props = [(''id'', JNum 1), (''name'', JStr ''u'')],
                     original_r = None\<rparr>"

text \<open>Result rows for the sample type: two complete rows, a row without the column
  \<open>name\<close>, and the one row of a query that has nothing to do with the batch.\<close>

definition row0 :: jsobject where
  "row0 = [(''__dbRecordIndex__'', JNum 0), (''id'', JNum 10), (''name'', JStr ''x'')]"

definition row1 :: jsobject where
  "row1 = [(''__dbRecordIndex__'', JNum 1), (''id'', JNum 20), (''name'', JStr ''y'')]"

definition shortRow0 :: jsobject where
  "shortRow0 = [(''__dbRecordIndex__'', JNum 0), (''id'', JNum 10)]"

definition pingRow :: jsobject where
  "pingRow = [(''one'', JNum 1)]"

definition pingQuery :: sqltok where
  "pingQuery = Unsafe [Text ''SELECT 1 AS one'']"





definition noDeleteOptions :: DeleteQueryOptions where
  "noDeleteOptions = \<lparr>startingQuery_d = None, finalQuery_d = None, tableName_d = None, whereClause = None\<rparr>"

definition noSetOptions :: SetQueryOptions where
  "noSetOptions = \<lparr>startingQuery = None, finalQuery = None, conflictKey = None, columns_o = None,
                    tableName_o = None, alterSql = None, syncRecords = False, resultType = None\<rparr>"

definition syncOptions :: SetQueryOptions where
  "syncOptions = noSetOptions\<lparr>syncRecords := True\<rparr>"

definition smallChunks :: DatabasePoolPlusConfig where
  "smallChunks = \<lparr>deleteChunkMax = 2, insertChunkMax = 2\<rparr>"

text \<open>
  Drivers: one that keeps the statements it is sent, in order, and answers each with no
  row; one that answers one given statement with one result and every other statement
  with another; one that fails; and a fetch method that answers every query with a
  given result.
\<close>

definition recordingDriver :: "sqltok list driver" where
  "recordingDriver db q = Inr (\<lparr>rows = []\<rparr>, db @ [q])"

definition replyDriver :: "sqltok \<Rightarrow> QueryResult \<Rightarrow> QueryResult \<Rightarrow> unit driver" where
  "replyDriver q0 r0 r db q = Inr (if q = q0 then r0 else r, db)"

definition failingDriver :: "unit driver" where
  "failingDriver db q = Inl (DriverError [])"

definition fetchReply :: "selectResult \<Rightarrow> unit selectDriver" where
  "fetchReply r db poolMethodKey q = Inr r"

text \<open>
  What a caller sees of a write: the properties of the instances behind given
  references after the call, and the error or the results.
\<close>

definition seenAfter ::
  "nat list \<Rightarrow> (store \<times> (error + (QueryResult list \<times> 'db))) option
     \<Rightarrow> (jsobject list \<times> (error + QueryResult list)) option" where
  "seenAfter refs out = map_option (\<lambda>(st, r). (map (\<lambda>a. props (st a)) refs, map_sum id fst r)) out"


section \<open>The map that may throw\<close>

lemma mapE_Inr_iff: "mapE f xs = Inr ys \<longleftrightarrow> map f xs = map Inr ys"
proof (induction xs arbitrary: ys)
  case Nil
  then show ?case by auto
next
  case (Cons x xs)
  show ?case
  proof (cases "f x")
    case (Inl e)
    then show ?thesis by auto
  next
    case (Inr y)
    show ?thesis
    proof (cases "mapE f xs")
      case (Inl e)
      with Cons [of "tl ys"] Inr show ?thesis by (cases ys) auto
    next
      case inr: (Inr zs)
      with Cons [of zs] Cons [of "tl ys"] Inr show ?thesis by (cases ys) auto
    qed
  qed
qed

lemma mapE_Inl_elem: "mapE f xs = Inl e \<Longrightarrow> \<exists>x\<in>set xs. f x = Inl e"
  by (induction xs) (auto split: sum.splits)

lemma mapE_total: "(\<forall>x\<in>set xs. \<exists>y. f x = Inr y) \<Longrightarrow> \<exists>ys. mapE f xs = Inr ys"
  by (induction xs) (auto split: sum.splits)


lemma mapE_length: "mapE f xs = Inr ys \<Longrightarrow> length ys = length xs"
  by (induction xs arbitrary: ys) (auto split: sum.splits)

lemma mapE_nth: "mapE f xs = Inr ys \<Longrightarrow> i < length xs \<Longrightarrow> f (xs ! i) = Inr (ys ! i)"
proof (induction xs arbitrary: ys i)
  case Nil
  then show ?case by simp
next
  case (Cons x xs)
  then show ?case
    by (cases i) (auto split: sum.splits)
qed


lemma mapE_post:
  "mapE (\<lambda>x. case f x of Inl e \<Rightarrow> Inl e | Inr y \<Rightarrow> Inr (g y)) xs =
     (case mapE f xs of Inl e \<Rightarrow> Inl e | Inr ys \<Rightarrow> Inr (map g ys))"
  by (induction xs) (auto split: sum.splits)


section \<open>Binding the values of a template\<close>

lemma bindValue_Inr: "bindValue tok = Inr tok' \<Longrightarrow> tok' = tok"
  by (induction tok rule: bindValue.induct) auto

lemma bindValue_Inl: "bindValue tok = Inl e \<Longrightarrow> e = InvalidInput \<or> e = TypeError"
  by (induction tok rule: bindValue.induct) auto

lemma mapE_bindValue: "mapE bindValue parts = Inr ps \<Longrightarrow> ps = parts"
proof (induction parts arbitrary: ps)
  case Nil
  then show ?case by simp
next
  case (Cons p parts)
  then show ?case
    by (auto split: sum.splits dest: bindValue_Inr)
qed

lemma sqlFragment_Inr: "sqlFragment parts = Inr tok \<Longrightarrow> tok = Fragment parts"
  by (auto simp: sqlFragment_def split: sum.splits dest: mapE_bindValue)

lemma sqlUnsafe_Inr: "sqlUnsafe parts = Inr tok \<Longrightarrow> tok = Unsafe parts"
  by (auto simp: sqlUnsafe_def split: sum.splits dest: mapE_bindValue)

lemma sqlFragment_Inl: "sqlFragment parts = Inl e \<Longrightarrow> e = InvalidInput \<or> e = TypeError"
  by (auto simp: sqlFragment_def split: sum.splits dest!: mapE_Inl_elem bindValue_Inl)

lemma sqlUnsafe_Inl: "sqlUnsafe parts = Inl e \<Longrightarrow> e = InvalidInput \<or> e = TypeError"
  by (auto simp: sqlUnsafe_def split: sum.splits dest!: mapE_Inl_elem bindValue_Inl)



lemma bindValue_Join: "ts \<noteq> [] \<Longrightarrow> bindValue (Join ts glue) = Inr (Join ts glue)"
  by (cases ts) simp_all



section \<open>What a statement holds\<close>

lemma holds_refl: "holds tok tok"
  by (cases tok) (simp_all add: holds_def)

lemma holds_Unsafe: "p \<in> set ts \<Longrightarrow> holds p part \<Longrightarrow> holds (Unsafe ts) part"
  by (auto simp: holds_def)

lemma holds_Fragment: "p \<in> set ts \<Longrightarrow> holds p part \<Longrightarrow> holds (Fragment ts) part"
  by (auto simp: holds_def)


section \<open>Chunking\<close>

lemma chunkLoop_chunksFrom:
  "0 < c \<Longrightarrow>
   chunkLoop build c xs i acc =
     Some (case mapE build (chunksFrom c xs i) of Inl e \<Rightarrow> Inl e | Inr qs \<Rightarrow> Inr (acc @ qs))"
proof (induction c xs i arbitrary: acc rule: chunksFrom.induct)
  case (1 c xs i)
  show ?case
  proof (cases "i < length xs")
    case False
    then show ?thesis
      by (subst chunkLoop.simps, subst chunksFrom.simps) simp
  next
    case True
    with "1.prems" have step: "chunksFrom c xs i = slice xs i (i + c) # chunksFrom c xs (i + c)"
      by (subst chunksFrom.simps) simp
    show ?thesis
    proof (cases "build (slice xs i (i + c))")
      case (Inl e)
      with True show ?thesis
        by (subst chunkLoop.simps) (simp add: step)
    next
      case (Inr q)
      have ih: "chunkLoop build c xs (i + c) (acc @ [q]) =
        Some (case mapE build (chunksFrom c xs (i + c)) of Inl e \<Rightarrow> Inl e
              | Inr qs \<Rightarrow> Inr ((acc @ [q]) @ qs))"
        using "1.IH" [of "acc @ [q]"] "1.prems" True by simp
      show ?thesis
        using True Inr ih
        by (subst chunkLoop.simps) (simp add: step split: sum.splits)
    qed
  qed
qed

lemma concat_chunksFrom: "0 < c \<Longrightarrow> concat (chunksFrom c xs i) = drop i xs"
proof (induction c xs i rule: chunksFrom.induct)
  case (1 c xs i)
  show ?case
  proof (cases "i < length xs")
    case False
    then show ?thesis by (subst chunksFrom.simps) simp
  next
    case True
    have "slice xs i (i + c) @ drop (i + c) xs = drop i xs"
      by (metis add.commute append_take_drop_id drop_drop drop_take add_diff_cancel_left' slice_def)
    with 1 True show ?thesis
      by (subst chunksFrom.simps) simp
  qed
qed

lemma length_chunksFrom: "0 < c \<Longrightarrow> length (chunksFrom c xs i) = (length xs - i + c - 1) div c"
proof (induction c xs i rule: chunksFrom.induct)
  case (1 c xs i)
  show ?case
  proof (cases "i < length xs")
    case False
    with "1.prems" show ?thesis by (subst chunksFrom.simps) simp
  next
    case True
    have "length (chunksFrom c xs (i + c)) = (length xs - (i + c) + c - 1) div c"
      using 1 True by simp
    moreover have "Suc ((length xs - (i + c) + c - 1) div c) = (length xs - i + c - 1) div c"
    proof (cases "length xs - i \<le> c")
      case True
      with \<open>i < length xs\<close> "1.prems" have "(length xs - (i + c) + c - 1) div c = 0" by simp
      moreover from True \<open>i < length xs\<close> "1.prems" have "(length xs - i + c - 1) div c = 1"
        by (simp add: div_nat_eqI)
      ultimately show ?thesis by simp
    next
      case False
      then have e: "length xs - i + c - 1 = (length xs - (i + c) + c - 1) + c" by simp
      have gen: "Suc (A div c) = (A + c) div c" for A :: nat
        using "1.prems" by (metis Suc_eq_plus1 div_add_self2 less_numeral_extra(3))
      show ?thesis
        unfolding e by (rule gen)
    qed
    ultimately show ?thesis
      using True "1.prems" by (subst chunksFrom.simps) simp
  qed
qed

lemma nth_chunksFrom:
  "0 < c \<Longrightarrow> k < length (chunksFrom c xs i) \<Longrightarrow>
   chunksFrom c xs i ! k = slice xs (i + k * c) (i + k * c + c)"
proof (induction c xs i arbitrary: k rule: chunksFrom.induct)
  case (1 c xs i)
  show ?case
  proof (cases "i < length xs")
    case False
    with "1.prems" show ?thesis by (subst (asm) chunksFrom.simps) simp
  next
    case True
    with "1.prems" have step: "chunksFrom c xs i = slice xs i (i + c) # chunksFrom c xs (i + c)"
      by (subst chunksFrom.simps) simp
    show ?thesis
    proof (cases k)
      case 0
      then show ?thesis by (simp add: step)
    next
      case (Suc j)
      with "1.prems" step have "j < length (chunksFrom c xs (i + c))" by simp
      with "1.IH" [of j] True "1.prems"
      have "chunksFrom c xs (i + c) ! j = slice xs (i + c + j * c) (i + c + j * c + c)"
        by simp
      with Suc show ?thesis by (simp add: step add.assoc add.commute add.left_commute)
    qed
  qed
qed

lemma chunk_sizes: "0 < c \<Longrightarrow> ch \<in> set (chunksFrom c xs i) \<Longrightarrow> ch \<noteq> [] \<and> length ch \<le> c"
proof (induction c xs i rule: chunksFrom.induct)
  case (1 c xs i)
  show ?case
  proof (cases "i < length xs")
    case False
    then have "chunksFrom c xs i = []" by (subst chunksFrom.simps) simp
    with "1.prems" show ?thesis by simp
  next
    case True
    with "1.prems" have step: "chunksFrom c xs i = slice xs i (i + c) # chunksFrom c xs (i + c)"
      by (subst chunksFrom.simps) simp
    from True "1.prems" have "slice xs i (i + c) \<noteq> [] \<and> length (slice xs i (i + c)) \<le> c"
      by (auto simp: slice_def)
    with 1 True step show ?thesis by auto
  qed
qed

lemma isChunking_chunksFrom: "0 < c \<Longrightarrow> isChunking c xs (chunksFrom c xs 0)"
  unfolding isChunking_def
  using length_chunksFrom [of c xs 0] nth_chunksFrom [of c _ xs 0] chunk_sizes [of c _ xs 0]
    concat_chunksFrom [of c xs 0]
  by simp



lemma flat_map: "flat (map_OneOrMore f x) = map f (flat x)"
  by (cases x) simp_all


section \<open>The statements of a write\<close>

lemma createQueries_chunks:
  assumes "0 < insertChunkMax cfg"
  shows "createQueries cfg ctor mode options tn pks pkc km ukm defs objs =
     (case prepareOptions ctor mode options tn pks pkc km ukm of
        Inl e \<Rightarrow> Some (Inl e)
      | Inr pq \<Rightarrow>
          Some (case mapE (\<lambda>b. prepareQuery ctor mode options pkc defs b pq)
                       (chunksFrom (insertChunkMax cfg) objs 0) of
                  Inl e \<Rightarrow> Inl e
                | Inr stmts \<Rightarrow> Inr (map (case alterSql options of None \<Rightarrow> id | Some f \<Rightarrow> f) stmts)))"
  unfolding createQueries_def
  by (simp add: chunkLoop_chunksFrom [OF assms] mapE_post split: sum.splits)

lemma createOutputObjects_length:
  "createOutputObjects mode options kk tm ic pkc records = Inr (defs, objs) \<Longrightarrow>
   length objs = length records"
  by (auto simp: createOutputObjects_def Let_def split: sum.splits)

lemma outputObjects_index:
  assumes "createOutputObjects mode options kk tm ins pkc record = Inr (defs, objs)" and "i < length record"
  shows "map_of (objs ! i) ''__dbRecordIndex__'' = Some (JNum (int i))"
proof -
  from assms(1) have "objs = map (outputObject mode kk tm (outputColumnsOf mode options ins pkc))
                                (enumerate 0 record)"
    by (auto simp: createOutputObjects_def Let_def split: sum.splits)
  with assms(2) have "objs ! i = outputObject mode kk tm (outputColumnsOf mode options ins pkc) (i, record ! i)"
    by (simp add: nth_enumerate_eq)
  then show ?thesis
    by (simp add: outputObject_def assign_def update_conv')
qed

lemma batchOutput_length:
  "batchOutput ctor mode options record = Inr (defs, objs) \<Longrightarrow> length objs = length record"
  by (auto simp: batchOutput_def Let_def dest: createOutputObjects_length)

lemma batchOutput_index:
  "batchOutput ctor mode options record = Inr (defs, objs) \<Longrightarrow> i < length record \<Longrightarrow>
   map_of (objs ! i) ''__dbRecordIndex__'' = Some (JNum (int i))"
  by (auto simp: batchOutput_def Let_def dest: outputObjects_index)

lemma setQueries_Inr:
  assumes "setQueries cfg r0 mode options = Some (Inr qs)" and "0 < insertChunkMax cfg"
  shows "\<exists>r rest tn defs objs pq stmts.
           flat r0 = r # rest \<and>
           orElse (tableName_o options) (table (getConfig (constructor_r r))) = Some tn \<and> tn \<noteq> [] \<and>
           \<not> ((case alterSql options of None \<Rightarrow> False | Some f \<Rightarrow> True) \<and> syncRecords options) \<and>
           batchOutput (constructor_r r) mode options (flat r0) = Inr (defs, objs) \<and>
           prepareOptions (constructor_r r) mode options tn (getPrimaryKeys (constructor_r r))
             (primaryKeyColumnsOf (constructor_r r))
             (mkMap (map (\<lambda>c. (name c, dbName c)) (fst (batchColumns (constructor_r r) mode options (flat r0)))))
             (mkMap (map (\<lambda>c. (name c, dbName c)) (snd (batchColumns (constructor_r r) mode options (flat r0)))))
             = Inr pq \<and>
           mapE (\<lambda>b. prepareQuery (constructor_r r) mode options (primaryKeyColumnsOf (constructor_r r)) defs b pq)
             (chunksFrom (insertChunkMax cfg) objs 0) = Inr stmts \<and>
           qs = map (case alterSql options of None \<Rightarrow> id | Some f \<Rightarrow> f) stmts"
  using assms(1)
  unfolding setQueries_def
  by (auto simp: Let_def createQueries_chunks [OF assms(2)]
      split: list.splits option.splits if_splits sum.splits prod.splits)


lemma chunkLoop_zero_aux:
  "chunkLoop build c xs i acc = Some res \<Longrightarrow> c = 0 \<longrightarrow> i < length xs \<longrightarrow> (\<exists>e. res = Inl e)"
proof (rule chunkLoop.raw_induct
    [where P = "\<lambda>build c xs i acc res. c = 0 \<longrightarrow> i < length xs \<longrightarrow> (\<exists>e. res = Inl e)"])
  show "chunkLoop build c xs i acc = Some res \<Longrightarrow> chunkLoop build c xs i acc = Some res" .
next
  fix f build' c' xs' i' acc' res'
  assume ih: "\<And>build c xs i acc res. f build c xs i acc = Some res \<Longrightarrow>
                 c = 0 \<longrightarrow> i < length xs \<longrightarrow> (\<exists>e. res = Inl e)"
    and step: "(if i' < length xs'
                then case build' (slice xs' i' (i' + c')) of Inl e \<Rightarrow> Some (Inl e)
                     | Inr q \<Rightarrow> f build' c' xs' (i' + c') (acc' @ [q])
                else Some (Inr acc')) = Some res'"
  show "c' = 0 \<longrightarrow> i' < length xs' \<longrightarrow> (\<exists>e. res' = Inl e)"
  proof (intro impI)
    assume z: "c' = 0" and lt: "i' < length xs'"
    show "\<exists>e. res' = Inl e"
    proof (cases "build' (slice xs' i' (i' + c'))")
      case (Inl e)
      with step lt show ?thesis by auto
    next
      case (Inr q)
      with step lt have "f build' c' xs' (i' + c') (acc' @ [q]) = Some res'" by simp
      from ih [OF this] z lt show ?thesis by simp
    qed
  qed
qed

lemma chunkLoop_positive:
  assumes "chunkLoop build c xs 0 acc = Some (Inr qs)" and "xs \<noteq> []"
  shows "0 < c"
  using chunkLoop_zero_aux [OF assms(1)] assms(2) by auto

lemma self_subtoken: "tok \<in> set (subtokens tok)"
  by (cases tok) simp_all

lemma prepareQuery_payload:
  assumes "prepareQuery ctor mode options pkc defs block pq = Inr q"
  shows "holds q (Jsonb block)"
  using assms
  by (auto simp: prepareQuery_def Let_def holds_def self_subtoken
      split: sum.splits if_splits dest!: sqlFragment_Inr sqlUnsafe_Inr)




lemma setQueries_positive:
  assumes "setQueries cfg r0 mode options = Some (Inr qs)"
  shows "0 < insertChunkMax cfg"
proof -
  from assms obtain ctor tn km ukm defs objs where
    bo: "batchOutput ctor mode options (flat r0) = Inr (defs, objs)" and
    ne: "flat r0 \<noteq> []" and
    cq: "createQueries cfg ctor mode options tn (getPrimaryKeys ctor) (primaryKeyColumnsOf ctor) km ukm
           defs objs = Some (Inr qs)"
    unfolding setQueries_def
    by (auto simp: Let_def split: list.splits option.splits if_splits sum.splits prod.splits)
  from bo ne have "objs \<noteq> []"
    by (auto dest: batchOutput_length)
  with cq show ?thesis
    unfolding createQueries_def
    by (auto split: sum.splits dest: chunkLoop_positive)
qed

lemma setQueries_statements:
  assumes "setQueries cfg r0 mode options = Some (Inr qs)"
  shows "\<exists>r rest tn defs objs pq stmts.
           flat r0 = r # rest \<and>
           orElse (tableName_o options) (table (getConfig (constructor_r r))) = Some tn \<and> tn \<noteq> [] \<and>
           \<not> ((case alterSql options of None \<Rightarrow> False | Some f \<Rightarrow> True) \<and> syncRecords options) \<and>
           batchOutput (constructor_r r) mode options (flat r0) = Inr (defs, objs) \<and>
           prepareOptions (constructor_r r) mode options tn (getPrimaryKeys (constructor_r r))
             (primaryKeyColumnsOf (constructor_r r))
             (mkMap (map (\<lambda>c. (name c, dbName c)) (fst (batchColumns (constructor_r r) mode options (flat r0)))))
             (mkMap (map (\<lambda>c. (name c, dbName c)) (snd (batchColumns (constructor_r r) mode options (flat r0)))))
             = Inr pq \<and>
           mapE (\<lambda>b. prepareQuery (constructor_r r) mode options (primaryKeyColumnsOf (constructor_r r)) defs b pq)
             (chunksFrom (insertChunkMax cfg) objs 0) = Inr stmts \<and>
           qs = map (case alterSql options of None \<Rightarrow> id | Some f \<Rightarrow> f) stmts"
  by (rule setQueries_Inr [OF assms setQueries_positive [OF assms]])




lemma User_select: "getSelectColumns User =
  [\<lparr>name = ''id'', dbName = ''id'', config = idColumn\<rparr>, \<lparr>name = ''name'', dbName = ''name'', config = nameColumn\<rparr>]"
  by (simp add: getSelectColumns_def getConfig_def User_def idColumn_def nameColumn_def nameOf_def)

lemma User_pks: "getPrimaryKeys User = [''id'']"
  by (simp add: getPrimaryKeys_def getConfig_def User_def idColumn_def nameColumn_def nameOf_def isPkColumn_def)

lemma User_table: "table (getConfig User) = Some ''users''"
  by (simp add: getConfig_def User_def)





lemma upsert_without_updatable_column:
  "conflictKeys \<noteq> [] \<Longrightarrow>
   upsertClause Upsert conflictKeys keyMap [] (Join [] commaSep) = Inl InvalidInput"
  by (auto simp: upsertClause_def parenthesizeIfMultipleKeys_def sqlFragment_def bindValue_Join)

lemma setQueries_total:
  assumes "0 < insertChunkMax cfg"
  shows "\<exists>res. setQueries cfg r0 mode options = Some res"
  unfolding setQueries_def
  by (auto simp: Let_def createQueries_chunks [OF assms]
      split: list.splits option.splits if_splits sum.splits prod.splits)

lemma deleteQueries_total: "\<exists>res. deleteQueries cfg target dopts = Some res"
proof (cases "0 < deleteChunkMax cfg")
  case True
  show ?thesis
    unfolding deleteQueries_def
    by (auto simp: Let_def chunkLoop_chunksFrom [OF True]
        split: list.splits option.splits if_splits sum.splits deleteTarget.splits)
next
  case False
  then have z: "deleteChunkMax cfg = 0" by simp
  have e: "deleteChunkQuery tn [] = Inl InvalidInput" for tn
    by (simp add: deleteChunkQuery_def whereClauseSql_def sqlUnsafe_def)
  have "chunkLoop (deleteChunkQuery tn) 0 (r # rs) 0 [] = Some (Inl InvalidInput)" for tn r rs
    by (subst chunkLoop.simps) (simp add: slice_def e)
  then show ?thesis
    unfolding deleteQueries_def
    by (auto simp: Let_def z
        split: list.splits option.splits if_splits sum.splits deleteTarget.splits)
qed

lemma whereCondition_Inr:
  assumes "whereCondition r cols k = Inr cond"
  shows "\<exists>col. find (\<lambda>c. dbName c = k) cols = Some col \<and>
               \<not> falsy (getProp (props r) (name col)) \<and>
               cond = Fragment [Identifier [k], Text '' = '', Param (getProp (props r) (name col))]"
  using assms
  by (auto simp: whereCondition_def Let_def split: option.splits if_splits dest!: sqlFragment_Inr)

lemma getWhereClause_Inr:
  assumes "getWhereClause r True = Inr (Some w)"
  shows "\<exists>conds. w = Join conds (Fragment [Text '' AND '']) \<and>
           length conds = length (getPrimaryKeys (constructor_r r)) \<and> conds \<noteq> [] \<and>
           (\<forall>m<length conds. \<exists>col.
              find (\<lambda>c. dbName c = getPrimaryKeys (constructor_r r) ! m)
                (getInsertColumns (constructor_r r)) = Some col \<and>
              \<not> falsy (getProp (props r) (name col)) \<and>
              conds ! m = Fragment [Identifier [getPrimaryKeys (constructor_r r) ! m], Text '' = '',
                                    Param (getProp (props r) (name col))])"
proof -
  from assms obtain conds where
    m: "mapE (whereCondition r (getInsertColumns (constructor_r r))) (getPrimaryKeys (constructor_r r)) = Inr conds"
    and w: "w = Join conds (Fragment [Text '' AND ''])"
    and ne: "getPrimaryKeys (constructor_r r) \<noteq> []"
    by (auto simp: getWhereClause_def Let_def split: if_splits sum.splits)
  have l: "length conds = length (getPrimaryKeys (constructor_r r))"
    by (rule mapE_length [OF m])
  have "\<exists>col. find (\<lambda>c. dbName c = getPrimaryKeys (constructor_r r) ! i)
                (getInsertColumns (constructor_r r)) = Some col \<and>
              \<not> falsy (getProp (props r) (name col)) \<and>
              conds ! i = Fragment [Identifier [getPrimaryKeys (constructor_r r) ! i], Text '' = '',
                                    Param (getProp (props r) (name col))]"
    if "i < length conds" for i
    using mapE_nth [OF m, of i] that l by (auto dest: whereCondition_Inr)
  with w l ne show ?thesis
    by auto
qed

lemma whereClauseSql_Inr:
  assumes "whereClauseSql chunk = Inr ws"
  shows "length ws = length chunk \<and>
         (\<forall>j<length ws. \<exists>w.
            getWhereClause (chunk ! j) True = Inr (Some w) \<and>
            ws ! j = Fragment [Text ''('', w, Text '')''])"
proof -
  let ?f = "\<lambda>r. case getWhereClause r True of
                 Inl e \<Rightarrow> Inl e
               | Inr w \<Rightarrow>
                   sqlFragment [Text ''('', (case w of None \<Rightarrow> Param JUndefined | Some tok \<Rightarrow> tok), Text '')'']"
  from assms have m: "mapE ?f chunk = Inr ws"
    by (simp add: whereClauseSql_def)
  have l: "length ws = length chunk"
    by (rule mapE_length [OF m])
  have "\<exists>w. getWhereClause (chunk ! j) True = Inr (Some w) \<and> ws ! j = Fragment [Text ''('', w, Text '')'']"
    if "j < length ws" for j
  proof -
    from mapE_nth [OF m, of j] that l have fj: "?f (chunk ! j) = Inr (ws ! j)"
      by simp
    then obtain w where g: "getWhereClause (chunk ! j) True = Inr w"
      and s: "sqlFragment [Text ''('', (case w of None \<Rightarrow> Param JUndefined | Some tok \<Rightarrow> tok), Text '')''] = Inr (ws ! j)"
      by (auto split: sum.splits)
    from s obtain tok where "w = Some tok"
      by (cases w) (auto simp: sqlFragment_def)
    with g s show ?thesis
      by (auto dest: sqlFragment_Inr)
  qed
  with l show ?thesis
    by blast
qed

lemma deleteChunkQuery_Inr:
  assumes "deleteChunkQuery tn chunk = Inr q"
  shows "\<exists>ws. whereClauseSql chunk = Inr ws \<and>
              q = Unsafe [Text '' DELETE FROM '', Identifier (splitDot tn), Text '' WHERE '',
                          Join ws (Fragment [Text '' OR '']), Text ''; '']"
  using assms
  by (auto simp: deleteChunkQuery_def split: sum.splits dest!: sqlUnsafe_Inr)

lemma deleteQueries_Inr:
  assumes "0 < deleteChunkMax cfg" and "whereClause dopts = None"
    and "deleteQueries cfg (Records rs0) dopts = Some (Inr dqs)"
  shows "\<exists>tn. tn \<noteq> [] \<and>
           mapE (deleteChunkQuery tn) (chunksFrom (deleteChunkMax cfg) (flat rs0) 0) = Inr dqs"
  using assms(2,3)
  unfolding deleteQueries_def
  by (auto simp: Let_def chunkLoop_chunksFrom [OF assms(1)]
      split: list.splits option.splits if_splits sum.splits)

lemma runQueries_recording:
  "runQueries recordingDriver log qs = Inr (map (\<lambda>q. \<lparr>rows = []\<rparr>) qs, log @ qs)"
  by (induction qs arbitrary: log) (simp_all add: recordingDriver_def)

lemma reconcileResults_no_rows:
  "reconcileResults cs record st (map (\<lambda>q. \<lparr>rows = []\<rparr>) qs) = Next st"
  by (induction qs) simp_all

lemma dbSetWorker_recording:
  assumes "setQueries cfg (map_OneOrMore st refs) mode options = Some (Inr qs)"
  shows "\<exists>st' res. dbSetWorker cfg recordingDriver log st refs mode options =
           Some (st', Inr (res, log @ (case startingQuery options of None \<Rightarrow> [] | Some q \<Rightarrow> [q]) @ qs @
                                 (case finalQuery options of None \<Rightarrow> [] | Some q \<Rightarrow> [q])))"
proof -
  from setQueries_statements [OF assms] have "flat refs \<noteq> []"
    by (auto simp: flat_map)
  then obtain a rest where f: "flat refs = a # rest"
    by (cases "flat refs") auto
  let ?all = "(case startingQuery options of None \<Rightarrow> [] | Some q \<Rightarrow> [q]) @ qs @
              (case finalQuery options of None \<Rightarrow> [] | Some q \<Rightarrow> [q])"
  have pq: "performQueries recordingDriver log qs (startingQuery options) (finalQuery options) =
              Inr (map (\<lambda>q. \<lparr>rows = []\<rparr>) ?all, log @ ?all)"
    by (simp only: performQueries_def runQueries_recording)
  show ?thesis
    by (simp add: dbSetWorker_def assms pq f Let_def updateDbRecordObjects_def
        reconcileResults_no_rows del: map_append)
qed

lemma dbDeleteWorker_recording:
  assumes "deleteQueries cfg (map_deleteTarget st target) dopts = Some (Inr dqs)"
  shows "\<exists>st' res. dbDeleteWorker cfg recordingDriver log st target dopts =
           Some (st', Inr (res, log @ (case startingQuery_d dopts of None \<Rightarrow> [] | Some q \<Rightarrow> [q]) @ dqs @
                                 (case finalQuery_d dopts of None \<Rightarrow> [] | Some q \<Rightarrow> [q])))"
  by (simp add: dbDeleteWorker_def assms performQueries_def runQueries_recording)

lemma isChunking_length: "isChunking c xs chunks \<Longrightarrow> length chunks = (length xs + c - 1) div c"
  by (simp add: isChunking_def)

text \<open>
  C6. With a positive chunk limit \<open>c\<close> the write and the delete return, and a batch of
  \<open>n\<close> instances gives \<open>ceil(n / c)\<close> statements (\<open>(n + c - 1) div c\<close>). The output
  object of the instance at position \<open>i\<close> carries the index \<open>i\<close>, and the \<open>k\<close>-th
  statement of a write holds as its JSON payload the \<open>k\<close>-th chunk of the output objects:
  the slice from \<open>k * c\<close>, at most \<open>c\<close> long, the chunks together the batch in its
  order. The \<open>k\<close>-th statement of a delete by instance is
  \<open>DELETE FROM table WHERE w1 OR w2 ...\<close> with one parenthesized conjunction per instance
  of the \<open>k\<close>-th chunk of the batch, in order, each conjunction the equalities of the
  primary keys of that instance with the values the instance holds. The workers send
  exactly these statements, in order, between the starting and the final query.
\<close>

theorem chunking_law:
  assumes "0 < insertChunkMax cfg" and "0 < deleteChunkMax cfg"
  shows "(\<exists>res. setQueries cfg record0 mode options = Some res) \<and>
         (\<forall>qs. setQueries cfg record0 mode options = Some (Inr qs) \<longrightarrow>
            length qs = (length (flat record0) + insertChunkMax cfg - 1) div insertChunkMax cfg \<and>
            (\<exists>r rest defs objs chunks.
               flat record0 = r # rest \<and>
               batchOutput (constructor_r r) mode options (flat record0) = Inr (defs, objs) \<and>
               length objs = length (flat record0) \<and>
               (\<forall>i<length objs. map_of (objs ! i) ''__dbRecordIndex__'' = Some (JNum (int i))) \<and>
               isChunking (insertChunkMax cfg) objs chunks \<and>
               length qs = length chunks \<and>
               (\<forall>k<length qs. \<exists>stmt.
                  qs ! k = (case alterSql options of None \<Rightarrow> id | Some f \<Rightarrow> f) stmt \<and>
                  holds stmt (Jsonb (chunks ! k))))) \<and>
         (\<forall>qs. setQueries cfg (map_OneOrMore st refs) mode options = Some (Inr qs) \<longrightarrow>
            (\<exists>st' res. dbSetWorker cfg recordingDriver log st refs mode options =
               Some (st', Inr (res, log @ (case startingQuery options of None \<Rightarrow> [] | Some q \<Rightarrow> [q]) @ qs @
                                     (case finalQuery options of None \<Rightarrow> [] | Some q \<Rightarrow> [q]))))) \<and>
         (\<exists>res. deleteQueries cfg target dopts = Some res) \<and>
         (\<forall>dqs. whereClause dopts = None \<and> deleteQueries cfg (Records rs0) dopts = Some (Inr dqs) \<longrightarrow>
            length dqs = (length (flat rs0) + deleteChunkMax cfg - 1) div deleteChunkMax cfg \<and>
            (\<exists>tn chunks.
               isChunking (deleteChunkMax cfg) (flat rs0) chunks \<and>
               length dqs = length chunks \<and>
               (\<forall>k<length dqs. \<exists>ws.
                  dqs ! k = Unsafe [Text '' DELETE FROM '', Identifier (splitDot tn), Text '' WHERE '',
                                    Join ws (Fragment [Text '' OR '']), Text ''; ''] \<and>
                  length ws = length (chunks ! k) \<and>
                  (\<forall>j<length ws. \<exists>conds.
                     ws ! j = Fragment [Text ''('', Join conds (Fragment [Text '' AND '']), Text '')''] \<and>
                     length conds = length (getPrimaryKeys (constructor_r (chunks ! k ! j))) \<and>
                     (\<forall>m<length conds. \<exists>col.
                        find (\<lambda>c. dbName c = getPrimaryKeys (constructor_r (chunks ! k ! j)) ! m)
                          (getInsertColumns (constructor_r (chunks ! k ! j))) = Some col \<and>
                        conds ! m =
                          Fragment [Identifier [getPrimaryKeys (constructor_r (chunks ! k ! j)) ! m],
                                    Text '' = '', Param (getProp (props (chunks ! k ! j)) (name col))]))))) \<and>
         (\<forall>dqs. deleteQueries cfg (map_deleteTarget st dtarget) dopts = Some (Inr dqs) \<longrightarrow>
            (\<exists>st' res. dbDeleteWorker cfg recordingDriver log st dtarget dopts =
               Some (st', Inr (res, log @ (case startingQuery_d dopts of None \<Rightarrow> [] | Some q \<Rightarrow> [q]) @ dqs @
                                     (case finalQuery_d dopts of None \<Rightarrow> [] | Some q \<Rightarrow> [q])))))"
proof (intro conjI allI impI)
  show "\<exists>res. setQueries cfg record0 mode options = Some res"
    by (rule setQueries_total [OF assms(1)])
next
  fix qs
  assume q: "setQueries cfg record0 mode options = Some (Inr qs)"
  from setQueries_statements [OF q] obtain r rest defs objs pq stmts where
    f: "flat record0 = r # rest" and
    bo: "batchOutput (constructor_r r) mode options (flat record0) = Inr (defs, objs)" and
    st: "mapE (\<lambda>b. prepareQuery (constructor_r r) mode options (primaryKeyColumnsOf (constructor_r r)) defs b pq)
             (chunksFrom (insertChunkMax cfg) objs 0) = Inr stmts" and
    qs: "qs = map (case alterSql options of None \<Rightarrow> id | Some f \<Rightarrow> f) stmts"
    by blast
  let ?chunks = "chunksFrom (insertChunkMax cfg) objs 0"
  have lo: "length objs = length (flat record0)"
    by (rule batchOutput_length [OF bo])
  have ix: "\<forall>i<length objs. map_of (objs ! i) ''__dbRecordIndex__'' = Some (JNum (int i))"
    using batchOutput_index [OF bo] lo by simp
  have ch: "isChunking (insertChunkMax cfg) objs ?chunks"
    by (rule isChunking_chunksFrom [OF assms(1)])
  have lq: "length qs = length ?chunks"
    using mapE_length [OF st] qs by simp
  have each: "\<forall>k<length qs. \<exists>stmt.
                  qs ! k = (case alterSql options of None \<Rightarrow> id | Some f \<Rightarrow> f) stmt \<and>
                  holds stmt (Jsonb (?chunks ! k))"
  proof (intro allI impI)
    fix k
    assume k: "k < length qs"
    with lq have "prepareQuery (constructor_r r) mode options (primaryKeyColumnsOf (constructor_r r)) defs
                    (?chunks ! k) pq = Inr (stmts ! k)"
      using mapE_nth [OF st, of k] by simp
    from prepareQuery_payload [OF this] k qs
    show "\<exists>stmt. qs ! k = (case alterSql options of None \<Rightarrow> id | Some f \<Rightarrow> f) stmt \<and>
                  holds stmt (Jsonb (?chunks ! k))"
      by auto
  qed
  from lq isChunking_length [OF ch] lo
  show "length qs = (length (flat record0) + insertChunkMax cfg - 1) div insertChunkMax cfg"
    by simp
  from f bo lo ix ch lq each
  show "\<exists>r rest defs objs chunks.
               flat record0 = r # rest \<and>
               batchOutput (constructor_r r) mode options (flat record0) = Inr (defs, objs) \<and>
               length objs = length (flat record0) \<and>
               (\<forall>i<length objs. map_of (objs ! i) ''__dbRecordIndex__'' = Some (JNum (int i))) \<and>
               isChunking (insertChunkMax cfg) objs chunks \<and>
               length qs = length chunks \<and>
               (\<forall>k<length qs. \<exists>stmt.
                  qs ! k = (case alterSql options of None \<Rightarrow> id | Some f \<Rightarrow> f) stmt \<and>
                  holds stmt (Jsonb (chunks ! k)))"
    by blast
next
  fix qs
  assume "setQueries cfg (map_OneOrMore st refs) mode options = Some (Inr qs)"
  then show "\<exists>st' res. dbSetWorker cfg recordingDriver log st refs mode options =
               Some (st', Inr (res, log @ (case startingQuery options of None \<Rightarrow> [] | Some q \<Rightarrow> [q]) @ qs @
                                     (case finalQuery options of None \<Rightarrow> [] | Some q \<Rightarrow> [q])))"
    by (rule dbSetWorker_recording)
next
  show "\<exists>res. deleteQueries cfg target dopts = Some res"
    by (rule deleteQueries_total)
next
  fix dqs
  assume a: "whereClause dopts = None \<and> deleteQueries cfg (Records rs0) dopts = Some (Inr dqs)"
  let ?chunks = "chunksFrom (deleteChunkMax cfg) (flat rs0) 0"
  from a deleteQueries_Inr [OF assms(2), of dopts rs0 dqs] obtain tn where
    m: "mapE (deleteChunkQuery tn) ?chunks = Inr dqs"
    by blast
  have ch: "isChunking (deleteChunkMax cfg) (flat rs0) ?chunks"
    by (rule isChunking_chunksFrom [OF assms(2)])
  have lq: "length dqs = length ?chunks"
    by (rule mapE_length [OF m])
  from lq isChunking_length [OF ch]
  show "length dqs = (length (flat rs0) + deleteChunkMax cfg - 1) div deleteChunkMax cfg"
    by simp
  have each: "\<forall>k<length dqs. \<exists>ws.
                  dqs ! k = Unsafe [Text '' DELETE FROM '', Identifier (splitDot tn), Text '' WHERE '',
                                    Join ws (Fragment [Text '' OR '']), Text ''; ''] \<and>
                  length ws = length (?chunks ! k) \<and>
                  (\<forall>j<length ws. \<exists>conds.
                     ws ! j = Fragment [Text ''('', Join conds (Fragment [Text '' AND '']), Text '')''] \<and>
                     length conds = length (getPrimaryKeys (constructor_r (?chunks ! k ! j))) \<and>
                     (\<forall>m<length conds. \<exists>col.
                        find (\<lambda>c. dbName c = getPrimaryKeys (constructor_r (?chunks ! k ! j)) ! m)
                          (getInsertColumns (constructor_r (?chunks ! k ! j))) = Some col \<and>
                        conds ! m =
                          Fragment [Identifier [getPrimaryKeys (constructor_r (?chunks ! k ! j)) ! m],
                                    Text '' = '', Param (getProp (props (?chunks ! k ! j)) (name col))]))"
  proof (intro allI impI)
    fix k
    assume k: "k < length dqs"
    with lq have "deleteChunkQuery tn (?chunks ! k) = Inr (dqs ! k)"
      using mapE_nth [OF m, of k] by simp
    from deleteChunkQuery_Inr [OF this] obtain ws where
      w: "whereClauseSql (?chunks ! k) = Inr ws" and
      q: "dqs ! k = Unsafe [Text '' DELETE FROM '', Identifier (splitDot tn), Text '' WHERE '',
                            Join ws (Fragment [Text '' OR '']), Text ''; '']"
      by blast
    from whereClauseSql_Inr [OF w] have
      l: "length ws = length (?chunks ! k)" and
      e: "\<forall>j<length ws. \<exists>w. getWhereClause (?chunks ! k ! j) True = Inr (Some w) \<and>
                              ws ! j = Fragment [Text ''('', w, Text '')'']"
      by auto
    have "\<exists>conds.
            ws ! j = Fragment [Text ''('', Join conds (Fragment [Text '' AND '']), Text '')''] \<and>
            length conds = length (getPrimaryKeys (constructor_r (?chunks ! k ! j))) \<and>
            (\<forall>m<length conds. \<exists>col.
               find (\<lambda>c. dbName c = getPrimaryKeys (constructor_r (?chunks ! k ! j)) ! m)
                 (getInsertColumns (constructor_r (?chunks ! k ! j))) = Some col \<and>
               conds ! m =
                 Fragment [Identifier [getPrimaryKeys (constructor_r (?chunks ! k ! j)) ! m],
                           Text '' = '', Param (getProp (props (?chunks ! k ! j)) (name col))])"
      if "j < length ws" for j
    proof -
      from e that obtain w where g: "getWhereClause (?chunks ! k ! j) True = Inr (Some w)"
        and wj: "ws ! j = Fragment [Text ''('', w, Text '')'']"
        by blast
      from getWhereClause_Inr [OF g] wj show ?thesis
        by blast
    qed
    with q l show "\<exists>ws.
                  dqs ! k = Unsafe [Text '' DELETE FROM '', Identifier (splitDot tn), Text '' WHERE '',
                                    Join ws (Fragment [Text '' OR '']), Text ''; ''] \<and>
                  length ws = length (?chunks ! k) \<and>
                  (\<forall>j<length ws. \<exists>conds.
                     ws ! j = Fragment [Text ''('', Join conds (Fragment [Text '' AND '']), Text '')''] \<and>
                     length conds = length (getPrimaryKeys (constructor_r (?chunks ! k ! j))) \<and>
                     (\<forall>m<length conds. \<exists>col.
                        find (\<lambda>c. dbName c = getPrimaryKeys (constructor_r (?chunks ! k ! j)) ! m)
                          (getInsertColumns (constructor_r (?chunks ! k ! j))) = Some col \<and>
                        conds ! m =
                          Fragment [Identifier [getPrimaryKeys (constructor_r (?chunks ! k ! j)) ! m],
                                    Text '' = '', Param (getProp (props (?chunks ! k ! j)) (name col))]))"
      by blast
  qed
  from ch lq each
  show "\<exists>tn chunks.
               isChunking (deleteChunkMax cfg) (flat rs0) chunks \<and>
               length dqs = length chunks \<and>
               (\<forall>k<length dqs. \<exists>ws.
                  dqs ! k = Unsafe [Text '' DELETE FROM '', Identifier (splitDot tn), Text '' WHERE '',
                                    Join ws (Fragment [Text '' OR '']), Text ''; ''] \<and>
                  length ws = length (chunks ! k) \<and>
                  (\<forall>j<length ws. \<exists>conds.
                     ws ! j = Fragment [Text ''('', Join conds (Fragment [Text '' AND '']), Text '')''] \<and>
                     length conds = length (getPrimaryKeys (constructor_r (chunks ! k ! j))) \<and>
                     (\<forall>m<length conds. \<exists>col.
                        find (\<lambda>c. dbName c = getPrimaryKeys (constructor_r (chunks ! k ! j)) ! m)
                          (getInsertColumns (constructor_r (chunks ! k ! j))) = Some col \<and>
                        conds ! m =
                          Fragment [Identifier [getPrimaryKeys (constructor_r (chunks ! k ! j)) ! m],
                                    Text '' = '', Param (getProp (props (chunks ! k ! j)) (name col))])))"
    by blast
next
  fix dqs
  assume "deleteQueries cfg (map_deleteTarget st dtarget) dopts = Some (Inr dqs)"
  then show "\<exists>st' res. dbDeleteWorker cfg recordingDriver log st dtarget dopts =
               Some (st', Inr (res, log @ (case startingQuery_d dopts of None \<Rightarrow> [] | Some q \<Rightarrow> [q]) @ dqs @
                                     (case finalQuery_d dopts of None \<Rightarrow> [] | Some q \<Rightarrow> [q])))"
    by (rule dbDeleteWorker_recording)
qed


section \<open>Objects as association lists\<close>

lemma fold_update_other:
  "k \<notin> f ` set xs \<Longrightarrow> map_of (fold (\<lambda>a m. AList.update (f a) (g a) m) xs init) k = map_of init k"
  by (induction xs arbitrary: init) (auto simp: update_conv')

lemma fold_update_distinct:
  "distinct (map f xs) \<Longrightarrow> x \<in> set xs \<Longrightarrow>
   map_of (fold (\<lambda>a m. AList.update (f a) (g a) m) xs init) (f x) = Some (g x)"
proof (induction xs arbitrary: init)
  case Nil
  then show ?case by simp
next
  case (Cons a as)
  show ?case
  proof (cases "x = a")
    case True
    with Cons.prems have "f a \<notin> f ` set as" by auto
    from fold_update_other [OF this, of g "AList.update (f a) (g a) init"] True show ?thesis
      by (simp add: update_conv')
  next
    case False
    with Cons show ?thesis by auto
  qed
qed






section \<open>Reconciliation of write results\<close>











lemma User_pkcols: "primaryKeyColumnsOf User = [\<lparr>name = ''id'', dbName = ''id'', config = idColumn\<rparr>]"
  by (simp add: primaryKeyColumnsOf_def User_pks User_select)

text \<open>
  C2, evaluated where the code departs from it. The batch is two instances, behind the
  references 0 and 1; the row for the first lacks the column \<open>name\<close>, the row for the
  second is complete. The \<open>return\<close> in the column loop leaves the whole function, not
  the row: when the short row comes first the complete row is never reconciled, the
  second instance keeps its old values and the store is as it was; when the complete row
  comes first it is reconciled.
\<close>

theorem later_complete_row_dropped:
  "updateDbRecordObjects User Record (primaryKeyColumnsOf User) [0, 1] twoUsers
     [\<lparr>rows = [shortRow0, row1]\<rparr>] = Returned twoUsers \<and>
   updateDbRecordObjects User Record (primaryKeyColumnsOf User) [0, 1] twoUsers
     [\<lparr>rows = [row1, shortRow0]\<rparr>] = Returned (twoUsers(1 := user 20 ''y''))"
  by (simp add: updateDbRecordObjects_def User_select User_pkcols reconcileRow_def recordAt_def
      hasOwnProperty_def getProp_def shortRow0_def row1_def user_def assign_def idColumn_def nameColumn_def
      twoUsers_def)







text \<open>
  C1, evaluated where the code departs from it. Two instances are inserted with
  \<open>syncRecords\<close>, and the driver answers the insert with a complete row for each, the
  rows carrying the indices 0 and 1. Alone, the rows are assigned to the instances at
  their indices. With a starting query whose result holds a row of its own, that row is
  reconciled too: it lacks the first select column, the \<open>return\<close> of the column loop
  leaves the whole reconciliation, and both instances keep their old values although
  their rows came back.
\<close>

theorem starting_query_row_stops_reconciliation:
  "seenAfter [0, 1]
     (dbSetWorker smallChunks (replyDriver pingQuery \<lparr>rows = [pingRow]\<rparr> \<lparr>rows = [row0, row1]\<rparr>) ()
        twoUsers (More [0, 1]) Insert syncOptions) =
     Some ([[(''id'', JNum 10), (''name'', JStr ''x'')], [(''id'', JNum 20), (''name'', JStr ''y'')]],
           Inr [\<lparr>rows = [row0, row1]\<rparr>]) \<and>
   seenAfter [0, 1]
     (dbSetWorker smallChunks (replyDriver pingQuery \<lparr>rows = [pingRow]\<rparr> \<lparr>rows = [row0, row1]\<rparr>) ()
        twoUsers (More [0, 1]) Insert (syncOptions\<lparr>startingQuery := Some pingQuery\<rparr>)) =
     Some ([[(''id'', JNum 1), (''name'', JStr ''a'')], [(''id'', JNum 2), (''name'', JStr ''b'')]],
           Inr [\<lparr>rows = [pingRow]\<rparr>, \<lparr>rows = [row0, row1]\<rparr>])"
  by code_simp



text \<open>
  The chunking law at a batch of three instances under a limit of two: two statements,
  of two instances and of one.
\<close>

theorem chunking_law_witness:
  "0 < insertChunkMax smallChunks \<and> 0 < deleteChunkMax smallChunks \<and>
   (\<exists>qs objs.
      setQueries smallChunks (More [user 1 ''a'', user 2 ''b'', user 3 ''c'']) Insert noSetOptions = Some (Inr qs) \<and>
      length qs = 2 \<and> length objs = 3 \<and>
      holds (qs ! 0) (Jsonb (slice objs 0 2)) \<and> holds (qs ! 1) (Jsonb (slice objs 2 4))) \<and>
   (\<exists>dqs ws0 ws1.
      deleteQueries smallChunks (Records (More [user 1 ''a'', user 2 ''b'', user 3 ''c''])) noDeleteOptions =
        Some (Inr dqs) \<and>
      length dqs = 2 \<and> length ws0 = 2 \<and> length ws1 = 1 \<and>
      dqs ! 0 = Unsafe [Text '' DELETE FROM '', Identifier [''users''], Text '' WHERE '',
                        Join ws0 (Fragment [Text '' OR '']), Text ''; ''] \<and>
      dqs ! 1 = Unsafe [Text '' DELETE FROM '', Identifier [''users''], Text '' WHERE '',
                        Join ws1 (Fragment [Text '' OR '']), Text ''; '']) \<and>
   (\<exists>st' res log'.
      dbSetWorker smallChunks recordingDriver [] twoUsers (More [0, 1, 0]) Insert noSetOptions =
        Some (st', Inr (res, log')) \<and> length log' = 2)"
proof -
  let ?us = "More [user 1 ''a'', user 2 ''b'', user 3 ''c'']"
  have i: "0 < insertChunkMax smallChunks" and d: "0 < deleteChunkMax smallChunks"
    by (simp_all add: smallChunks_def)
  have ci: "insertChunkMax smallChunks = 2" and cd: "deleteChunkMax smallChunks = 2"
    by (simp_all add: smallChunks_def)
  have a: "alterSql noSetOptions = None" "startingQuery noSetOptions = None" "finalQuery noSetOptions = None"
    by (simp_all add: noSetOptions_def)
  have w: "whereClause noDeleteOptions = None"
    by (simp add: noDeleteOptions_def)
  note law = chunking_law [OF i d, where ?record0.0 = ?us and mode = Insert and options = noSetOptions
      and st = twoUsers and refs = "More [0, 1, 0]" and log = "[]"
      and dopts = noDeleteOptions and ?rs0.0 = ?us]
  have "case setQueries smallChunks ?us Insert noSetOptions of Some (Inr qs) \<Rightarrow> True | _ \<Rightarrow> False"
    by code_simp
  then obtain qs where qs: "setQueries smallChunks ?us Insert noSetOptions = Some (Inr qs)"
    by (auto split: option.splits sum.splits)
  from law [THEN conjunct2, THEN conjunct1, rule_format, OF qs] obtain objs chunks where
    lq0: "length qs = (length (flat ?us) + insertChunkMax smallChunks - 1) div insertChunkMax smallChunks" and
    lo0: "length objs = length (flat ?us)" and
    ch0: "isChunking (insertChunkMax smallChunks) objs chunks" and
    each: "\<forall>k<length qs. \<exists>stmt. qs ! k = (case alterSql noSetOptions of None \<Rightarrow> id | Some f \<Rightarrow> f) stmt \<and>
                  holds stmt (Jsonb (chunks ! k))"
    by blast
  from lq0 have lq: "length qs = 2"
    by (simp add: ci)
  from lo0 have lo: "length objs = 3"
    by simp
  from ch0 have ch: "isChunking 2 objs chunks"
    by (simp add: ci)
  from ch lo have lc: "length chunks = 2"
    and nth: "\<forall>k<length chunks. chunks ! k = slice objs (k * 2) (k * 2 + 2)"
    unfolding isChunking_def by simp_all
  from nth [rule_format, of 0] nth [rule_format, of 1] lc
  have c0: "chunks ! 0 = slice objs 0 2" and c1: "chunks ! 1 = slice objs 2 4"
    by (simp_all add: eval_nat_numeral)
  from each [rule_format, of 0] each [rule_format, of 1] lq
  have h: "holds (qs ! 0) (Jsonb (slice objs 0 2))" "holds (qs ! 1) (Jsonb (slice objs 2 4))"
    by (simp_all add: a c0 c1 del: One_nat_def)
  have "case deleteQueries smallChunks (Records ?us) noDeleteOptions of
          Some (Inr r) \<Rightarrow> True | _ \<Rightarrow> False"
    by code_simp
  then obtain dqs where
    dqs: "deleteQueries smallChunks (Records ?us) noDeleteOptions = Some (Inr dqs)"
    by (auto split: option.splits sum.splits)
  from law [THEN conjunct2, THEN conjunct2, THEN conjunct2, THEN conjunct2, THEN conjunct1, rule_format,
            OF conjI [OF w dqs]]
  obtain tn dchunks where
    ld0: "length dqs = (length (flat ?us) + deleteChunkMax smallChunks - 1) div deleteChunkMax smallChunks" and
    dch0: "isChunking (deleteChunkMax smallChunks) (flat ?us) dchunks" and
    deach0: "\<forall>k<length dqs. \<exists>ws.
                  dqs ! k = Unsafe [Text '' DELETE FROM '', Identifier (splitDot tn), Text '' WHERE '',
                                    Join ws (Fragment [Text '' OR '']), Text ''; ''] \<and>
                  length ws = length (dchunks ! k) \<and>
                  (\<forall>j<length ws. \<exists>conds.
                     ws ! j = Fragment [Text ''('', Join conds (Fragment [Text '' AND '']), Text '')''] \<and>
                     length conds = length (getPrimaryKeys (constructor_r (dchunks ! k ! j))) \<and>
                     (\<forall>m<length conds. \<exists>col.
                        find (\<lambda>c. dbName c = getPrimaryKeys (constructor_r (dchunks ! k ! j)) ! m)
                          (getInsertColumns (constructor_r (dchunks ! k ! j))) = Some col \<and>
                        conds ! m =
                          Fragment [Identifier [getPrimaryKeys (constructor_r (dchunks ! k ! j)) ! m],
                                    Text '' = '', Param (getProp (props (dchunks ! k ! j)) (name col))]))"
    by blast
  from ld0 have ld: "length dqs = 2"
    by (simp add: cd)
  from dch0 have dch: "isChunking 2 (flat ?us) dchunks"
    by (simp add: cd)
  from deach0 have deach: "\<forall>k<length dqs. \<exists>ws.
                  dqs ! k = Unsafe [Text '' DELETE FROM '', Identifier (splitDot tn), Text '' WHERE '',
                                    Join ws (Fragment [Text '' OR '']), Text ''; ''] \<and>
                  length ws = length (dchunks ! k)"
    by blast
  from dch have ldc: "length dchunks = 2"
    and dnth: "\<forall>k<length dchunks. dchunks ! k = slice (flat ?us) (k * 2) (k * 2 + 2)"
    unfolding isChunking_def by simp_all
  from dnth [rule_format, of 0] dnth [rule_format, of 1] ldc
  have dc0: "length (dchunks ! 0) = 2" and dc1: "length (dchunks ! 1) = 1"
    by (simp_all add: slice_def)
  from deach [rule_format, of 0] deach [rule_format, of 1] ld dc0 dc1 obtain ws0 ws1 where
    d0: "dqs ! 0 = Unsafe [Text '' DELETE FROM '', Identifier (splitDot tn), Text '' WHERE '',
                           Join ws0 (Fragment [Text '' OR '']), Text ''; '']" "length ws0 = 2" and
    d1: "dqs ! 1 = Unsafe [Text '' DELETE FROM '', Identifier (splitDot tn), Text '' WHERE '',
                           Join ws1 (Fragment [Text '' OR '']), Text ''; '']" "length ws1 = 1"
    by (auto simp del: One_nat_def)
  have "case deleteQueries smallChunks (Records ?us) noDeleteOptions of
          Some (Inr (Unsafe (t0 # Identifier ns # rest) # others)) \<Rightarrow> ns = [''users''] | _ \<Rightarrow> False"
    by code_simp
  with dqs d0(1) have tn: "splitDot tn = [''users'']"
    by (cases dqs) auto
  have "case setQueries smallChunks (map_OneOrMore twoUsers (More [0, 1, 0])) Insert noSetOptions of
          Some (Inr qs) \<Rightarrow> length qs = 2 | _ \<Rightarrow> False"
    by code_simp
  then obtain qs' where
    qs': "setQueries smallChunks (map_OneOrMore twoUsers (More [0, 1, 0])) Insert noSetOptions = Some (Inr qs')"
    and lq': "length qs' = 2"
    by (auto split: option.splits sum.splits)
  from law [THEN conjunct2, THEN conjunct2, THEN conjunct1, rule_format, OF qs'] obtain st' res where
    "dbSetWorker smallChunks recordingDriver [] twoUsers (More [0, 1, 0]) Insert noSetOptions =
       Some (st', Inr (res, [] @ (case startingQuery noSetOptions of None \<Rightarrow> [] | Some q \<Rightarrow> [q]) @ qs' @
                             (case finalQuery noSetOptions of None \<Rightarrow> [] | Some q \<Rightarrow> [q])))"
    by blast
  with lq' have r: "\<exists>st' res log'.
      dbSetWorker smallChunks recordingDriver [] twoUsers (More [0, 1, 0]) Insert noSetOptions =
        Some (st', Inr (res, log')) \<and> length log' = 2"
    by (simp add: a)
  from i d qs lq lo h dqs ld d0 d1 tn r show ?thesis
    by (simp only: tn) blast
qed


section \<open>Select\<close>












section \<open>Registration and the validation of identifiers\<close>

lemma colDefinitions_valid:
  "(\<forall>c\<in>set cols. isValidPostgresIdentifier (dbName c)) \<Longrightarrow> \<exists>defs. colDefinitions mode cols = Inr defs"
  by (induction cols) auto

lemma colDefinitions_invalid:
  "(\<exists>c\<in>set cols. \<not> isValidPostgresIdentifier (dbName c)) \<Longrightarrow>
   \<exists>n. \<not> isValidPostgresIdentifier n \<and> colDefinitions mode cols = Inl (InvalidIdentifier n)"
proof (induction cols)
  case Nil
  then show ?case by simp
next
  case (Cons c cols)
  show ?case
  proof (cases "isValidPostgresIdentifier (dbName c)")
    case False
    then show ?thesis by auto
  next
    case True
    with Cons show ?thesis by auto
  qed
qed

lemma addLineage_keeps:
  "map_of out k = Some v \<Longrightarrow> map_of (addLineage cols out) k = Some v"
  unfolding addLineage_def
proof (induction cols arbitrary: out)
  case Nil
  then show ?case by simp
next
  case (Cons kc cols)
  show ?case
  proof (cases "map_of out (fst kc) \<noteq> None")
    case True
    with Cons show ?thesis by simp
  next
    case False
    with Cons.prems have "fst kc \<noteq> k" by auto
    with Cons.prems have "map_of (AList.update (fst kc) (snd kc) out) k = Some v"
      by (simp add: update_conv')
    from Cons.IH [OF this] False show ?thesis by simp
  qed
qed

lemma lineage_keeps:
  "map_of out k = Some v \<Longrightarrow> map_of (fold (\<lambda>anc out. addLineage (columns anc) out) lineage out) k = Some v"
  by (induction lineage arbitrary: out) (auto simp: addLineage_keeps)

lemma record_decorator_keeps_name:
  assumes "distinct (map fst own)" and "(key, c) \<in> set own" and "name_c c = Some n" and "n \<noteq> []"
  shows "map_of (columns (record_decorator camelToSnake rc own lineage)) key = Some c"
proof -
  let ?conv = "case convertCases rc of None \<Rightarrow> True | Some b \<Rightarrow> b"
  have "map_of (fold (\<lambda>kc out. AList.update (fst kc) (snd (ownColumn camelToSnake ?conv kc)) out) own [])
          (fst (key, c)) = Some (snd (ownColumn camelToSnake ?conv (key, c)))"
    by (rule fold_update_distinct [OF assms(1,2)])
  moreover have "snd (ownColumn camelToSnake ?conv (key, c)) = c"
    using assms(3,4) by (simp add: ownColumn_def)
  ultimately show ?thesis
    by (simp add: record_decorator_def Let_def lineage_keeps)
qed

lemma setQueries_invalid_identifier:
  assumes "flat r0 = r # rest"
    and "\<not> ((case alterSql options of None \<Rightarrow> False | Some f \<Rightarrow> True) \<and> syncRecords options)"
    and "orElse (tableName_o options) (table (getConfig (constructor_r r))) = Some tn" and "tn \<noteq> []"
    and "sameType (constructor_r r) (flat r0)"
    and "fst (batchColumns (constructor_r r) mode options (flat r0)) \<noteq> []"
    and "mode = Update \<longrightarrow> snd (batchColumns (constructor_r r) mode options (flat r0)) \<noteq> []"
    and "\<exists>col\<in>set (outputColumnsOf mode options
                      (fst (batchColumns (constructor_r r) mode options (flat r0)))
                      (primaryKeyColumnsOf (constructor_r r))).
           \<not> isValidPostgresIdentifier (dbName col)"
  shows "\<exists>n. \<not> isValidPostgresIdentifier n \<and>
             setQueries cfg r0 mode options = Some (Inl (InvalidIdentifier n))"
proof -
  from colDefinitions_invalid [OF assms(8), of mode] obtain n where
    n: "\<not> isValidPostgresIdentifier n" and
    cd: "colDefinitions mode (outputColumnsOf mode options
                      (fst (batchColumns (constructor_r r) mode options (flat r0)))
                      (primaryKeyColumnsOf (constructor_r r))) = Inl (InvalidIdentifier n)"
    by blast
  have "setQueries cfg r0 mode options = Some (Inl (InvalidIdentifier n))"
    using assms(1-7) cd
    by (auto simp: setQueries_def Let_def batchOutput_def createOutputObjects_def split: prod.splits)
  with n show ?thesis by blast
qed

lemma Odd_columns: "columns (getConfig Odd) = [(''label'', nameColumn\<lparr>name_c := Some ''bad name''\<rparr>)]"
  by (simp add: Odd_def getConfig_def record_decorator_def ownColumn_def nameColumn_def)

lemma Odd_insert: "getInsertColumns Odd =
  [\<lparr>name = ''label'', dbName = ''bad name'', config = nameColumn\<lparr>name_c := Some ''bad name''\<rparr>\<rparr>]"
  by (simp add: getInsertColumns_def Odd_columns nameColumn_def nameOf_def)

lemma Odd_pks: "getPrimaryKeys Odd = []"
  by (simp add: getPrimaryKeys_def Odd_columns nameColumn_def isPkColumn_def)

lemma Odd_table: "table (getConfig Odd) = Some ''odd''"
  by (simp add: Odd_def getConfig_def record_decorator_def)

lemma bad_name: "\<not> isValidPostgresIdentifier ''bad name''"
  by (simp add: isIdentStart_def isIdentRest_def)

text \<open>
  C7, as the specification states it, fails: the record decorator validates nothing.
  The record type \<open>Odd\<close> is registered with the column name \<open>bad name\<close>, which is no
  identifier, and its configuration holds that name.
\<close>

theorem registration_accepts_invalid_name:
  "\<not> isValidPostgresIdentifier ''bad name'' \<and>
   columns (config_s Odd) = [(''label'', nameColumn\<lparr>name_c := Some ''bad name''\<rparr>)] \<and>
   map dbName (getInsertColumns Odd) = [''bad name'']"
  using bad_name Odd_columns Odd_insert by (simp add: getConfig_def)

text \<open>
  C7, amended. Registration stores the database name a column declares as it is, valid
  or not. The database name of every output column is validated when a write (insert,
  upsert, update) builds its column definitions: once the earlier checks of the write
  have passed (a batch that is not empty, no \<open>alterSql\<close> with \<open>syncRecords\<close>, a table
  name that is set and not empty, instances of one type, columns to write), an output
  column whose name is no valid unquoted identifier makes the write fail with
  \<open>InvalidIdentifier\<close>, whatever the driver, so before any statement is built or sent,
  and the instances are left as they are; with valid names only, the column definitions
  are built.
\<close>

theorem identifiers_checked_when_writing:
  "(distinct (map fst own) \<and> (key, c) \<in> set own \<and> name_c c = Some n \<and> n \<noteq> [] \<longrightarrow>
      map_of (columns (record_decorator camelToSnake rc own lineage)) key = Some c) \<and>
   (flat (map_OneOrMore st refs) = r # rest \<and>
    \<not> ((case alterSql options of None \<Rightarrow> False | Some f \<Rightarrow> True) \<and> syncRecords options) \<and>
    orElse (tableName_o options) (table (getConfig (constructor_r r))) = Some tn \<and> tn \<noteq> [] \<and>
    sameType (constructor_r r) (flat (map_OneOrMore st refs)) \<and>
    fst (batchColumns (constructor_r r) mode options (flat (map_OneOrMore st refs))) \<noteq> [] \<and>
    (mode = Update \<longrightarrow>
       snd (batchColumns (constructor_r r) mode options (flat (map_OneOrMore st refs))) \<noteq> []) \<and>
    (\<exists>col\<in>set (outputColumnsOf mode options
                   (fst (batchColumns (constructor_r r) mode options (flat (map_OneOrMore st refs))))
                   (primaryKeyColumnsOf (constructor_r r))).
        \<not> isValidPostgresIdentifier (dbName col)) \<longrightarrow>
      (\<exists>bad. \<not> isValidPostgresIdentifier bad \<and>
          setQueries cfg (map_OneOrMore st refs) mode options = Some (Inl (InvalidIdentifier bad)) \<and>
          dbSetWorker cfg t db st refs mode options = Some (st, Inl (InvalidIdentifier bad)))) \<and>
   ((\<forall>col\<in>set cols. isValidPostgresIdentifier (dbName col)) \<longrightarrow>
      (\<exists>defs. colDefinitions mode cols = Inr defs))"
proof (intro conjI impI)
  assume "distinct (map fst own) \<and> (key, c) \<in> set own \<and> name_c c = Some n \<and> n \<noteq> []"
  then show "map_of (columns (record_decorator camelToSnake rc own lineage)) key = Some c"
    using record_decorator_keeps_name by blast
next
  let ?r0 = "map_OneOrMore st refs"
  assume h: "flat ?r0 = r # rest \<and>
    \<not> ((case alterSql options of None \<Rightarrow> False | Some f \<Rightarrow> True) \<and> syncRecords options) \<and>
    orElse (tableName_o options) (table (getConfig (constructor_r r))) = Some tn \<and> tn \<noteq> [] \<and>
    sameType (constructor_r r) (flat ?r0) \<and>
    fst (batchColumns (constructor_r r) mode options (flat ?r0)) \<noteq> [] \<and>
    (mode = Update \<longrightarrow>
       snd (batchColumns (constructor_r r) mode options (flat ?r0)) \<noteq> []) \<and>
    (\<exists>col\<in>set (outputColumnsOf mode options
                   (fst (batchColumns (constructor_r r) mode options (flat ?r0)))
                   (primaryKeyColumnsOf (constructor_r r))).
        \<not> isValidPostgresIdentifier (dbName col))"
  from setQueries_invalid_identifier [of ?r0 r rest options tn mode cfg] h
  obtain bad where b: "\<not> isValidPostgresIdentifier bad"
    and q: "setQueries cfg ?r0 mode options = Some (Inl (InvalidIdentifier bad))"
    by blast
  from q have "dbSetWorker cfg t db st refs mode options = Some (st, Inl (InvalidIdentifier bad))"
    by (simp add: dbSetWorker_def)
  with b q show "\<exists>bad. \<not> isValidPostgresIdentifier bad \<and>
          setQueries cfg ?r0 mode options = Some (Inl (InvalidIdentifier bad)) \<and>
          dbSetWorker cfg t db st refs mode options = Some (st, Inl (InvalidIdentifier bad))"
    by blast
next
  assume "\<forall>col\<in>set cols. isValidPostgresIdentifier (dbName col)"
  then show "\<exists>defs. colDefinitions mode cols = Inr defs"
    by (rule colDefinitions_valid)
qed

theorem identifiers_checked_when_writing_witness:
  "getInsertColumns Odd =
     [\<lparr>name = ''label'', dbName = ''bad name'', config = nameColumn\<lparr>name_c := Some ''bad name''\<rparr>\<rparr>] \<and>
   (\<exists>bad. \<not> isValidPostgresIdentifier bad \<and>
      dbSetWorker smallChunks failingDriver () oddStore (One 0) Insert noSetOptions =
        Some (oddStore, Inl (InvalidIdentifier bad)))"
proof -
  let ?ins = "[\<lparr>name = ''label'', dbName = ''bad name'', config = nameColumn\<lparr>name_c := Some ''bad name''\<rparr>\<rparr>]"
  have m: "oddStore a = oddRecord" for a
    by (simp add: oddStore_def)
  have c: "constructor_r oddRecord = Odd"
    by (simp add: oddRecord_def)
  have kk: "knownKeysOf [oddRecord] = [''label'']"
    by (simp add: knownKeysOf_def oddRecord_def)
  have gc: "batchColumns Odd Insert noSetOptions [oddRecord] = (?ins, ?ins)"
    by (simp add: batchColumns_def kk getColumns_def Odd_insert noSetOptions_def nameColumn_def Let_def)
  have oc: "outputColumnsOf Insert noSetOptions ?ins [] = ?ins"
    by (simp add: outputColumnsOf_def mkMap_def)
  have opts: "alterSql noSetOptions = None" "syncRecords noSetOptions = False"
    "tableName_o noSetOptions = None"
    by (simp_all add: noSetOptions_def)
  have pkc: "primaryKeyColumnsOf Odd = []"
    by (simp add: primaryKeyColumnsOf_def Odd_pks)
  have out: "outputColumnsOf Insert noSetOptions
                   (fst (batchColumns (constructor_r oddRecord) Insert noSetOptions
                           (flat (map_OneOrMore oddStore (One 0)))))
                   (primaryKeyColumnsOf (constructor_r oddRecord)) = ?ins"
    by (simp add: m c gc oc pkc)
  have h7: "\<exists>col\<in>set (outputColumnsOf Insert noSetOptions
                   (fst (batchColumns (constructor_r oddRecord) Insert noSetOptions
                           (flat (map_OneOrMore oddStore (One 0)))))
                   (primaryKeyColumnsOf (constructor_r oddRecord))).
        \<not> isValidPostgresIdentifier (dbName col)"
    unfolding out using bad_name by (simp del: isValidPostgresIdentifier.simps)
  have h16: "flat (map_OneOrMore oddStore (One 0)) = oddRecord # [] \<and>
    \<not> ((case alterSql noSetOptions of None \<Rightarrow> False | Some f \<Rightarrow> True) \<and> syncRecords noSetOptions) \<and>
    orElse (tableName_o noSetOptions) (table (getConfig (constructor_r oddRecord))) = Some ''odd'' \<and> ''odd'' \<noteq> [] \<and>
    sameType (constructor_r oddRecord) (flat (map_OneOrMore oddStore (One 0))) \<and>
    fst (batchColumns (constructor_r oddRecord) Insert noSetOptions (flat (map_OneOrMore oddStore (One 0)))) \<noteq> [] \<and>
    (Insert = Update \<longrightarrow>
       snd (batchColumns (constructor_r oddRecord) Insert noSetOptions (flat (map_OneOrMore oddStore (One 0)))) \<noteq> [])"
    by (simp add: m c gc opts Odd_table orElse_def sameType_def)
  from identifiers_checked_when_writing
         [where st = oddStore and refs = "One 0" and r = oddRecord and rest = "[]" and options = noSetOptions
            and tn = "''odd''" and mode = Insert and cfg = smallChunks and t = failingDriver and db = "()",
          THEN conjunct2, THEN conjunct1]
       h16 h7
  have "\<exists>bad. \<not> isValidPostgresIdentifier bad \<and>
      dbSetWorker smallChunks failingDriver () oddStore (One 0) Insert noSetOptions =
        Some (oddStore, Inl (InvalidIdentifier bad))"
    by blast
  with Odd_insert show ?thesis
    by blast
qed

text \<open>
  A table name that is the empty string is refused like one that is not set, by the
  write, by the delete and by the select.
\<close>

lemma empty_table_name_refused:
  "setQueries smallChunks (One unnamedRecord) Insert noSetOptions = Some (Inl MissingTable) \<and>
   deleteQueries smallChunks (Records (One unnamedRecord)) noDeleteOptions = Some (Inl MissingTable) \<and>
   dbGetWorker (fetchReply (Row [])) () ''one'' Unnamed None = Inl MissingTable"
  by (simp add: setQueries_def deleteQueries_def dbGetWorker_def unnamedRecord_def Unnamed_def getConfig_def
      noSetOptions_def noDeleteOptions_def orElse_def mergeGetOptions_def)


section \<open>Delete\<close>

lemma delete_rejections:
  "deleteQueries cfg (Records (More [])) dopts = Some (Inl EmptyBatch) \<and>
   dbDeleteWorker cfg t db st (Records (More [])) dopts = Some (st, Inl EmptyBatch) \<and>
   (whereClause dopts = None \<longrightarrow>
      deleteQueries cfg (Ctor c) dopts = Some (Inl MissingPredicate) \<and>
      dbDeleteWorker cfg t db st (Ctor c) dopts = Some (st, Inl MissingPredicate))"
  by (simp add: deleteQueries_def dbDeleteWorker_def)

text \<open>
  C8, evaluated where the code departs from it. Delete of a record type with the empty
  fragment as its where clause passes the validation, an empty fragment being an object
  and so truthy, and the one statement built and sent is \<open>DELETE FROM "users" WHERE ;\<close>
  with an empty fragment between \<open>WHERE\<close> and the semicolon: a statement without a
  condition, where the message of the \<open>MissingPredicate\<close> error promises that an empty
  where clause deletes every row.
\<close>

theorem empty_predicate_statement:
  "deleteQueries smallChunks (Ctor User) (noDeleteOptions\<lparr>whereClause := Some (Fragment [])\<rparr>) =
     Some (Inr [Unsafe [Text '' DELETE FROM '', Identifier [''users''], Text '' WHERE '', Fragment [],
                        Text ''; '']]) \<and>
   dbDeleteWorker smallChunks recordingDriver [] twoUsers (Ctor User)
       (noDeleteOptions\<lparr>whereClause := Some (Fragment [])\<rparr>) =
     Some (twoUsers,
           Inr ([\<lparr>rows = []\<rparr>],
                [Unsafe [Text '' DELETE FROM '', Identifier [''users''], Text '' WHERE '', Fragment [],
                         Text ''; '']]))"
  by (simp add: deleteQueries_def dbDeleteWorker_def performQueries_def recordingDriver_def
      noDeleteOptions_def User_table orElse_def sqlUnsafe_def)
















text \<open>
  An instance of a type without primary key has no where clause, and the template of the
  delete statement cannot bind it.
\<close>

lemma keyless_instance_refused:
  "getWhereClause oddRecord True = Inr None \<and>
   deleteQueries smallChunks (Records (One oddRecord)) noDeleteOptions = Some (Inl InvalidInput)"
proof -
  have c: "constructor_r oddRecord = Odd"
    by (simp add: oddRecord_def)
  have g: "getWhereClause oddRecord True = Inr None"
    by (simp add: getWhereClause_def c Odd_pks)
  have "deleteQueries smallChunks (Records (One oddRecord)) noDeleteOptions = Some (Inl InvalidInput)"
    by (subst deleteQueries_def, subst chunkLoop.simps)
       (simp add: c Odd_table orElse_def noDeleteOptions_def smallChunks_def slice_def deleteChunkQuery_def
          whereClauseSql_def g sqlFragment_def)
  with g show ?thesis
    by simp
qed

text \<open>With a chunk maximum of zero the first chunk is empty and its list cannot be bound.\<close>

lemma delete_zero_chunk_refused:
  "deleteQueries \<lparr>deleteChunkMax = 0, insertChunkMax = 2\<rparr> (Records (One (user 1 ''a''))) noDeleteOptions =
     Some (Inl InvalidInput)"
  by (subst deleteQueries_def, subst chunkLoop.simps)
     (simp add: user_def User_table orElse_def noDeleteOptions_def slice_def deleteChunkQuery_def
        whereClauseSql_def sqlUnsafe_def)


section \<open>The columns of an update\<close>












end
